theory Spec2Isabelle
  imports Complex_Main
begin

section \<open>Values of the host language\<close>

text \<open>
  The program is TypeScript running in a browser. Its \<^verbatim>\<open>number\<close> is modelled as a
  mathematical \<^typ>\<open>real\<close>: exact, finite, without NaN or the infinities. What
  \<^verbatim>\<open>JSON.parse\<close> yields is a value of \<open>jsvalue\<close>; an object keeps its properties in
  insertion order.
\<close>

datatype jsvalue =
    JNull
  | JBool bool
  | JNumber real
  | JString string
  | JArray "jsvalue list"
  | JObject "(string \<times> jsvalue) list"

text \<open>
  \<^verbatim>\<open>JSON.stringify\<close> and \<^verbatim>\<open>JSON.parse\<close> belong to the host, not to the repository. They
  are parameters of the model; \<open>JSON_parse\<close> yields \<open>None\<close> where the host throws.
\<close>

record host =
  JSON_stringify :: "jsvalue \<Rightarrow> string"
  JSON_parse :: "string \<Rightarrow> jsvalue option"

text \<open>
  A thrown value: an \<^verbatim>\<open>Error\<close> or a \<^verbatim>\<open>TypeError\<close> (both instances of \<^verbatim>\<open>Error\<close>) with its
  message, or anything else.
\<close>

datatype js_error = Error (message: string) | TypeError (message: string) | Thrown string

section \<open>GameScene.ts: the game state\<close>

text \<open>\<^verbatim>\<open>interface GameState\<close>: eight numeric properties.\<close>

record GameState =
  coins :: real
  clickPower :: real
  autoPerSecond :: real
  multiplier :: real
  multiplierEndTime :: real
  totalClicks :: real
  totalCoinsEarned :: real
  purchaseCount :: real

text \<open>
  The object literal that \<^verbatim>\<open>loadState\<close> and \<^verbatim>\<open>resetState\<close> both write.
\<close>

definition defaultState :: GameState where
  "defaultState =
     \<lparr> coins = 0, clickPower = 1, autoPerSecond = 0, multiplier = 1,
       multiplierEndTime = 0, totalClicks = 0, totalCoinsEarned = 0, purchaseCount = 0 \<rparr>"

text \<open>
  A \<open>GameState\<close> seen as the JavaScript object it is: what \<^verbatim>\<open>JSON.stringify(this.state)\<close>
  is handed, and what \<^verbatim>\<open>loadState\<close> returns when it returns the default literal.
\<close>

definition state_json :: "GameState \<Rightarrow> jsvalue" where
  "state_json s =
     JObject
       [ (''coins'', JNumber (coins s)),
         (''clickPower'', JNumber (clickPower s)),
         (''autoPerSecond'', JNumber (autoPerSecond s)),
         (''multiplier'', JNumber (multiplier s)),
         (''multiplierEndTime'', JNumber (multiplierEndTime s)),
         (''totalClicks'', JNumber (totalClicks s)),
         (''totalCoinsEarned'', JNumber (totalCoinsEarned s)),
         (''purchaseCount'', JNumber (purchaseCount s)) ]"

type_synonym localStorage = "string \<rightharpoonup> string"

definition slot :: string where
  "slot = ''cryptoClickerState''"

text \<open>
  \<^verbatim>\<open>loadState\<close>. The TypeScript return type is not checked at run time: the function returns
  whatever \<^verbatim>\<open>JSON.parse\<close> made of the stored text. \<^verbatim>\<open>if (saved)\<close> is false for a missing
  item and for the empty string; the \<^verbatim>\<open>catch\<close> swallows the parse error.
\<close>

definition loadState :: "host \<Rightarrow> localStorage \<Rightarrow> jsvalue" where
  "loadState h ls =
     (case ls slot of
        None \<Rightarrow> state_json defaultState
      | Some saved \<Rightarrow>
          if saved \<noteq> [] then
            (case JSON_parse h saved of
               Some v \<Rightarrow> v
             | None \<Rightarrow> state_json defaultState)
          else state_json defaultState)"

text \<open>
  What the outside can see of the manager's work, in the order it happens: a subscriber
  called with a snapshot, and a write to local storage.
\<close>

datatype event =
    Invoked nat GameState
  | Saved string string

text \<open>
  \<^verbatim>\<open>class GameStateManager\<close> together with the local storage it writes. Subscribers are
  opaque observers, named by a number; the \<^verbatim>\<open>Set\<close> keeps them in insertion order, without
  duplicates.
\<close>

record manager =
  state :: GameState
  listeners :: "nat list"
  storage :: localStorage
  trace :: "event list"

definition saveState :: "host \<Rightarrow> manager \<Rightarrow> manager" where
  "saveState h m =
     (let text = JSON_stringify h (state_json (state m))
      in m \<lparr> storage := (storage m)(slot \<mapsto> text),
             trace := trace m @ [Saved slot text] \<rparr>)"

definition getState :: "manager \<Rightarrow> GameState" where
  "getState m = state m"

definition subscribe :: "nat \<Rightarrow> manager \<Rightarrow> manager" where
  "subscribe listener m =
     (if listener \<in> set (listeners m) then m
      else m \<lparr> listeners := listeners m @ [listener] \<rparr>)"

definition unsubscribe :: "nat \<Rightarrow> manager \<Rightarrow> manager" where
  "unsubscribe listener m = m \<lparr> listeners := removeAll listener (listeners m) \<rparr>"

text \<open>\<^verbatim>\<open>notify\<close>: first every listener, with a snapshot; then \<^verbatim>\<open>saveState\<close>.\<close>

definition notify :: "host \<Rightarrow> manager \<Rightarrow> manager" where
  "notify h m =
     saveState h
       (m \<lparr> trace := trace m @ map (\<lambda>listener. Invoked listener (getState m)) (listeners m) \<rparr>)"

definition addCoins :: "host \<Rightarrow> real \<Rightarrow> manager \<Rightarrow> manager" where
  "addCoins h amount m =
     (let earned = amount * multiplier (state m);
          s1 = (state m) \<lparr> coins := coins (state m) + earned \<rparr>;
          s2 = s1 \<lparr> totalCoinsEarned := totalCoinsEarned s1 + earned \<rparr>
      in notify h (m \<lparr> state := s2 \<rparr>))"

definition click :: "host \<Rightarrow> manager \<Rightarrow> real \<times> manager" where
  "click h m =
     (let s1 = (state m) \<lparr> totalClicks := totalClicks (state m) + 1 \<rparr>;
          earned = clickPower s1 * multiplier s1;
          s2 = s1 \<lparr> coins := coins s1 + earned \<rparr>;
          s3 = s2 \<lparr> totalCoinsEarned := totalCoinsEarned s2 + earned \<rparr>
      in (earned, notify h (m \<lparr> state := s3 \<rparr>)))"

definition autoGenerate :: "host \<Rightarrow> manager \<Rightarrow> real \<times> manager" where
  "autoGenerate h m =
     (if autoPerSecond (state m) \<le> 0 then (0, m)
      else
        (let earned = autoPerSecond (state m) * multiplier (state m);
             s1 = (state m) \<lparr> coins := coins (state m) + earned \<rparr>;
             s2 = s1 \<lparr> totalCoinsEarned := totalCoinsEarned s1 + earned \<rparr>
         in (earned, notify h (m \<lparr> state := s2 \<rparr>))))"

definition addClickPower :: "host \<Rightarrow> real \<Rightarrow> manager \<Rightarrow> manager" where
  "addClickPower h amount m =
     (let s1 = (state m) \<lparr> clickPower := clickPower (state m) + amount \<rparr>;
          s2 = s1 \<lparr> purchaseCount := purchaseCount s1 + 1 \<rparr>
      in notify h (m \<lparr> state := s2 \<rparr>))"

definition addAutoPerSecond :: "host \<Rightarrow> real \<Rightarrow> manager \<Rightarrow> manager" where
  "addAutoPerSecond h amount m =
     (let s1 = (state m) \<lparr> autoPerSecond := autoPerSecond (state m) + amount \<rparr>;
          s2 = s1 \<lparr> purchaseCount := purchaseCount s1 + 1 \<rparr>
      in notify h (m \<lparr> state := s2 \<rparr>))"

text \<open>
  \<^verbatim>\<open>Date.now()\<close> is read once by \<^verbatim>\<open>setMultiplier\<close> and once by \<^verbatim>\<open>checkMultiplierExpiry\<close>;
  the reading is the argument \<open>now\<close>.
\<close>

definition setMultiplier :: "host \<Rightarrow> real \<Rightarrow> real \<Rightarrow> real \<Rightarrow> manager \<Rightarrow> manager" where
  "setMultiplier h now mult durationMs m =
     (let s1 = (state m) \<lparr> multiplier := mult \<rparr>;
          s2 = s1 \<lparr> multiplierEndTime := now + durationMs \<rparr>;
          s3 = s2 \<lparr> purchaseCount := purchaseCount s2 + 1 \<rparr>
      in notify h (m \<lparr> state := s3 \<rparr>))"

definition checkMultiplierExpiry :: "host \<Rightarrow> real \<Rightarrow> manager \<Rightarrow> bool \<times> manager" where
  "checkMultiplierExpiry h now m =
     (if multiplier (state m) > 1 \<and> now > multiplierEndTime (state m) then
        (let s1 = (state m) \<lparr> multiplier := 1 \<rparr>;
             s2 = s1 \<lparr> multiplierEndTime := 0 \<rparr>
         in (True, notify h (m \<lparr> state := s2 \<rparr>)))
      else (False, m))"

definition resetState :: "host \<Rightarrow> manager \<Rightarrow> manager" where
  "resetState h m = notify h (m \<lparr> state := defaultState \<rparr>)"

text \<open>
  The seven operations on the game state, as calls: each with the value it returns. A
  history is a list of calls, each with the clock reading at which it runs.
\<close>

datatype call =
    Click
  | AutoGenerate
  | AddClickPower real
  | AddAutoPerSecond real
  | SetMultiplier real real
  | CheckMultiplierExpiry
  | ResetState

datatype returned = Void | Number real | Boolean bool

fun perform :: "host \<Rightarrow> real \<Rightarrow> call \<Rightarrow> manager \<Rightarrow> returned \<times> manager" where
  "perform h now Click m = (case click h m of (earned, m') \<Rightarrow> (Number earned, m'))"
| "perform h now AutoGenerate m =
     (case autoGenerate h m of (earned, m') \<Rightarrow> (Number earned, m'))"
| "perform h now (AddClickPower amount) m = (Void, addClickPower h amount m)"
| "perform h now (AddAutoPerSecond amount) m = (Void, addAutoPerSecond h amount m)"
| "perform h now (SetMultiplier mult durationMs) m =
     (Void, setMultiplier h now mult durationMs m)"
| "perform h now CheckMultiplierExpiry m =
     (case checkMultiplierExpiry h now m of (expired, m') \<Rightarrow> (Boolean expired, m'))"
| "perform h now ResetState m = (Void, resetState h m)"

fun run :: "host \<Rightarrow> (real \<times> call) list \<Rightarrow> manager \<Rightarrow> returned list \<times> manager" where
  "run h [] m = ([], m)"
| "run h ((now, c) # cs) m =
     (case perform h now c m of
        (r, m') \<Rightarrow> (case run h cs m' of (rs, m'') \<Rightarrow> (r # rs, m'')))"


section \<open>GameScene.ts: when a subscriber or the storage throws\<close>

text \<open>
  \<^verbatim>\<open>notify\<close> has no \<^verbatim>\<open>try\<close>. A subscriber that throws ends the \<^verbatim>\<open>forEach\<close>: the subscribers
  after it are not called, \<^verbatim>\<open>saveState\<close> does not run, and the operation that called
  \<^verbatim>\<open>notify\<close> throws instead of returning, with its change of the state already made. A
  \<^verbatim>\<open>localStorage.setItem\<close> that throws does the same after the last subscriber. The
  definitions above are the run in which every subscriber returns and the storage takes
  the write; the definitions below follow the other runs too. \<open>listener_throws rx l s\<close>
  is what subscriber \<open>l\<close> throws when it is called with the snapshot \<open>s\<close>, and
  \<open>setItem_throws rx key text\<close> what the storage throws at that write; \<open>None\<close> is a call
  that returns. A subscriber does not call back into the manager.
\<close>

record reactions =
  listener_throws :: "nat \<Rightarrow> GameState \<Rightarrow> js_error option"
  setItem_throws :: "string \<Rightarrow> string \<Rightarrow> js_error option"

definition saveState_exn :: "reactions \<Rightarrow> host \<Rightarrow> manager \<Rightarrow> js_error option \<times> manager" where
  "saveState_exn rx h m =
     (let text = JSON_stringify h (state_json (state m))
      in case setItem_throws rx slot text of
           Some err \<Rightarrow> (Some err, m)
         | None \<Rightarrow>
             (None, m \<lparr> storage := (storage m)(slot \<mapsto> text),
                        trace := trace m @ [Saved slot text] \<rparr>))"

text \<open>
  \<^verbatim>\<open>this.listeners.forEach(listener => listener(this.getState()))\<close>: the calls made, and
  what ended them early.
\<close>

fun forEach_listener ::
  "reactions \<Rightarrow> GameState \<Rightarrow> nat list \<Rightarrow> js_error option \<times> event list" where
  "forEach_listener rx s [] = (None, [])"
| "forEach_listener rx s (l # ls) =
     (case listener_throws rx l s of
        Some err \<Rightarrow> (Some err, [Invoked l s])
      | None \<Rightarrow>
          (case forEach_listener rx s ls of (thrown, evs) \<Rightarrow> (thrown, Invoked l s # evs)))"

definition notify_exn :: "reactions \<Rightarrow> host \<Rightarrow> manager \<Rightarrow> js_error option \<times> manager" where
  "notify_exn rx h m =
     (case forEach_listener rx (getState m) (listeners m) of
        (Some err, evs) \<Rightarrow> (Some err, m \<lparr> trace := trace m @ evs \<rparr>)
      | (None, evs) \<Rightarrow> saveState_exn rx h (m \<lparr> trace := trace m @ evs \<rparr>))"

text \<open>
  \<^verbatim>\<open>this.notify(); return v;\<close> at the end of an operation: \<open>v\<close> is returned when
  \<^verbatim>\<open>notify\<close> returned, and what \<^verbatim>\<open>notify\<close> threw is thrown on otherwise.
\<close>

definition returning :: "'a \<Rightarrow> js_error option \<times> manager \<Rightarrow> (js_error + 'a) \<times> manager" where
  "returning v notified =
     (case notified of
        (Some err, m) \<Rightarrow> (Inl err, m)
      | (None, m) \<Rightarrow> (Inr v, m))"

definition click_exn :: "reactions \<Rightarrow> host \<Rightarrow> manager \<Rightarrow> (js_error + real) \<times> manager" where
  "click_exn rx h m =
     (let s1 = (state m) \<lparr> totalClicks := totalClicks (state m) + 1 \<rparr>;
          earned = clickPower s1 * multiplier s1;
          s2 = s1 \<lparr> coins := coins s1 + earned \<rparr>;
          s3 = s2 \<lparr> totalCoinsEarned := totalCoinsEarned s2 + earned \<rparr>
      in returning earned (notify_exn rx h (m \<lparr> state := s3 \<rparr>)))"

definition autoGenerate_exn :: "reactions \<Rightarrow> host \<Rightarrow> manager \<Rightarrow> (js_error + real) \<times> manager" where
  "autoGenerate_exn rx h m =
     (if autoPerSecond (state m) \<le> 0 then (Inr 0, m)
      else
        (let earned = autoPerSecond (state m) * multiplier (state m);
             s1 = (state m) \<lparr> coins := coins (state m) + earned \<rparr>;
             s2 = s1 \<lparr> totalCoinsEarned := totalCoinsEarned s1 + earned \<rparr>
         in returning earned (notify_exn rx h (m \<lparr> state := s2 \<rparr>))))"

definition addClickPower_exn ::
  "reactions \<Rightarrow> host \<Rightarrow> real \<Rightarrow> manager \<Rightarrow> (js_error + unit) \<times> manager" where
  "addClickPower_exn rx h amount m =
     (let s1 = (state m) \<lparr> clickPower := clickPower (state m) + amount \<rparr>;
          s2 = s1 \<lparr> purchaseCount := purchaseCount s1 + 1 \<rparr>
      in returning () (notify_exn rx h (m \<lparr> state := s2 \<rparr>)))"

definition addAutoPerSecond_exn ::
  "reactions \<Rightarrow> host \<Rightarrow> real \<Rightarrow> manager \<Rightarrow> (js_error + unit) \<times> manager" where
  "addAutoPerSecond_exn rx h amount m =
     (let s1 = (state m) \<lparr> autoPerSecond := autoPerSecond (state m) + amount \<rparr>;
          s2 = s1 \<lparr> purchaseCount := purchaseCount s1 + 1 \<rparr>
      in returning () (notify_exn rx h (m \<lparr> state := s2 \<rparr>)))"

definition setMultiplier_exn ::
  "reactions \<Rightarrow> host \<Rightarrow> real \<Rightarrow> real \<Rightarrow> real \<Rightarrow> manager \<Rightarrow> (js_error + unit) \<times> manager" where
  "setMultiplier_exn rx h now mult durationMs m =
     (let s1 = (state m) \<lparr> multiplier := mult \<rparr>;
          s2 = s1 \<lparr> multiplierEndTime := now + durationMs \<rparr>;
          s3 = s2 \<lparr> purchaseCount := purchaseCount s2 + 1 \<rparr>
      in returning () (notify_exn rx h (m \<lparr> state := s3 \<rparr>)))"

definition checkMultiplierExpiry_exn ::
  "reactions \<Rightarrow> host \<Rightarrow> real \<Rightarrow> manager \<Rightarrow> (js_error + bool) \<times> manager" where
  "checkMultiplierExpiry_exn rx h now m =
     (if multiplier (state m) > 1 \<and> now > multiplierEndTime (state m) then
        (let s1 = (state m) \<lparr> multiplier := 1 \<rparr>;
             s2 = s1 \<lparr> multiplierEndTime := 0 \<rparr>
         in returning True (notify_exn rx h (m \<lparr> state := s2 \<rparr>)))
      else (Inr False, m))"

definition resetState_exn :: "reactions \<Rightarrow> host \<Rightarrow> manager \<Rightarrow> (js_error + unit) \<times> manager" where
  "resetState_exn rx h m = returning () (notify_exn rx h (m \<lparr> state := defaultState \<rparr>))"

fun perform_exn ::
  "reactions \<Rightarrow> host \<Rightarrow> real \<Rightarrow> call \<Rightarrow> manager \<Rightarrow> (js_error + returned) \<times> manager" where
  "perform_exn rx h now Click m =
     (case click_exn rx h m of (r, m') \<Rightarrow> (map_sum id Number r, m'))"
| "perform_exn rx h now AutoGenerate m =
     (case autoGenerate_exn rx h m of (r, m') \<Rightarrow> (map_sum id Number r, m'))"
| "perform_exn rx h now (AddClickPower amount) m =
     (case addClickPower_exn rx h amount m of (r, m') \<Rightarrow> (map_sum id (\<lambda>_. Void) r, m'))"
| "perform_exn rx h now (AddAutoPerSecond amount) m =
     (case addAutoPerSecond_exn rx h amount m of (r, m') \<Rightarrow> (map_sum id (\<lambda>_. Void) r, m'))"
| "perform_exn rx h now (SetMultiplier mult durationMs) m =
     (case setMultiplier_exn rx h now mult durationMs m of
        (r, m') \<Rightarrow> (map_sum id (\<lambda>_. Void) r, m'))"
| "perform_exn rx h now CheckMultiplierExpiry m =
     (case checkMultiplierExpiry_exn rx h now m of (r, m') \<Rightarrow> (map_sum id Boolean r, m'))"
| "perform_exn rx h now ResetState m =
     (case resetState_exn rx h m of (r, m') \<Rightarrow> (map_sum id (\<lambda>_. Void) r, m'))"

section \<open>TrailsService.ts: the payment gateway\<close>

datatype TradeType = EXACT_INPUT | EXACT_OUTPUT

datatype RouteProvider = AUTO | CCTP | LIFI | RELAY | SUSHI | ZEROX

record Intent =
  id' :: string
  originChainId :: nat
  destinationChainId :: nat
  originTokenAddress :: string
  destinationTokenAddress :: string
  originTokenAmount :: string
  destinationTokenAmount :: string
  ownerAddress :: string
  destinationToAddress :: string
  expiresAt :: real

record Fees =
  totalFeeAmount :: string
  totalFeeAmountUsd :: string

record Quote =
  intent :: Intent
  fromAmount :: string
  fromAmountMin :: string
  toAmount :: string
  toAmountMin :: string
  fees :: Fees
  priceImpact :: string
  completionEstimateSeconds :: real
  route :: string

datatype receipt_status = pending | processing | completed | failed | refunded

record IntentReceipt =
  intentId :: string
  status :: receipt_status
  originTxHash :: "string option"
  destinationTxHash :: "string option"
  error :: "string option"

record QuoteOptions =
  slippageTolerance :: "real option"
  bridgeProvider :: "RouteProvider option"

record QuoteRequest =
  ownerAddress :: string
  originChainId :: nat
  originTokenAddress :: string
  originTokenAmount :: int
  destinationChainId :: nat
  destinationTokenAddress :: string
  destinationToAddress :: string
  tradeType :: TradeType
  options :: "QuoteOptions option"
  toCalldata :: "string option"

text \<open>The anonymous result and parameter types of \<^verbatim>\<open>commitIntent\<close> and \<^verbatim>\<open>executeIntent\<close>.\<close>

record Committed =
  intentId_c :: string
  expiresAt_c :: real

record ExecuteParams =
  intentId_x :: string
  depositSignature :: "string option"

record Executed =
  txHash :: string

record WaitOptions =
  timeout :: "int option"
  pollInterval :: "int option"

definition NATIVE_TOKEN_ADDRESS :: string where
  "NATIVE_TOKEN_ADDRESS = ''0x0000000000000000000000000000000000000000''"

text \<open>
  What the JavaScript engine adds to \<^verbatim>\<open>request\<close>: the text of a number, and the message of
  the \<^verbatim>\<open>TypeError\<close> it throws when a property of \<^verbatim>\<open>null\<close> is read.
\<close>

record engine =
  Number_toString :: "real \<Rightarrow> string"
  null_read_message :: string

text \<open>
  What \<^verbatim>\<open>fetch\<close> resolves to. \<^verbatim>\<open>request\<close> reads \<^verbatim>\<open>response.json()\<close> in two ways: on a
  response that is not ok, as whatever value the body is (\<open>json_value\<close>), to look for its
  \<^verbatim>\<open>message\<close>; on an ok response, as the payload of the type the caller expects
  (\<open>json\<close>). \<open>Inl\<close> is a rejected promise.
\<close>

record 'a response =
  ok :: bool
  status_code :: nat
  json_value :: "js_error + jsvalue"
  json :: "js_error + 'a"

text \<open>Decimal numerals, for the template string \<^verbatim>\<open>`API error: ${response.status}`\<close>.\<close>

fun digits :: "nat \<Rightarrow> string" where
  "digits n =
     (if n < 10 then [''0123456789'' ! n]
      else digits (n div 10) @ [''0123456789'' ! (n mod 10)])"

declare digits.simps [simp del]

text \<open>
  \<^verbatim>\<open>error.message\<close>, for a value that came from JSON: a \<^verbatim>\<open>TypeError\<close> on \<^verbatim>\<open>null\<close>, the
  property of an object (whose keys are distinct), \<^verbatim>\<open>undefined\<close> (here \<open>None\<close>) when the
  object has no such property and on a number, a string, a boolean or an array.
\<close>

definition read_message :: "engine \<Rightarrow> jsvalue \<Rightarrow> js_error + jsvalue option" where
  "read_message js v =
     (case v of
        JNull \<Rightarrow> Inl (TypeError (null_read_message js))
      | JObject props \<Rightarrow> Inr (map_of props ''message'')
      | _ \<Rightarrow> Inr None)"

text \<open>What \<^verbatim>\<open>||\<close> takes for true.\<close>

fun truthy :: "jsvalue \<Rightarrow> bool" where
  "truthy JNull = False"
| "truthy (JBool b) = b"
| "truthy (JNumber x) = (x \<noteq> 0)"
| "truthy (JString s) = (s \<noteq> [])"
| "truthy (JArray vs) = True"
| "truthy (JObject props) = True"

text \<open>
  The message that \<^verbatim>\<open>new Error(v)\<close> gets: \<open>v\<close> as a string. An array is its elements
  joined by commas, with nothing for a \<^verbatim>\<open>null\<close> among them.
\<close>

fun join_comma :: "string list \<Rightarrow> string" where
  "join_comma [] = []"
| "join_comma [s] = s"
| "join_comma (s # t # ts) = s @ '','' @ join_comma (t # ts)"

fun to_string :: "engine \<Rightarrow> jsvalue \<Rightarrow> string" where
  "to_string js JNull = ''null''"
| "to_string js (JBool b) = (if b then ''true'' else ''false'')"
| "to_string js (JNumber x) = Number_toString js x"
| "to_string js (JString s) = s"
| "to_string js (JArray vs) =
     join_comma (map (\<lambda>v. if v = JNull then [] else to_string js v) vs)"
| "to_string js (JObject props) = ''[object Object]''"

text \<open>
  \<^verbatim>\<open>request\<close>, from the outcome of its \<^verbatim>\<open>fetch\<close> on. A rejected \<^verbatim>\<open>fetch\<close> propagates; the
  \<^verbatim>\<open>.catch\<close> replaces a body that is not JSON by \<^verbatim>\<open>{ message: 'Unknown error' }\<close>; \<^verbatim>\<open>||\<close>
  takes its right operand when the message is missing or not truthy.
\<close>

definition request :: "engine \<Rightarrow> js_error + 'a response \<Rightarrow> js_error + 'a" where
  "request js fetched =
     (case fetched of
        Inl err \<Rightarrow> Inl err
      | Inr response \<Rightarrow>
          if \<not> ok response then
            (let body =
                   (case json_value response of
                      Inl _ \<Rightarrow> JObject [(''message'', JString ''Unknown error'')]
                    | Inr v \<Rightarrow> v)
             in case read_message js body of
                  Inl thrown \<Rightarrow> Inl thrown
                | Inr (Some msg) \<Rightarrow>
                    if truthy msg then Inl (Error (to_string js msg))
                    else Inl (Error (''API error: '' @ digits (status_code response)))
                | Inr None \<Rightarrow> Inl (Error (''API error: '' @ digits (status_code response))))
          else json response)"

text \<open>
  The remote service and the timers, as the program meets them. The quote request is sent
  with its two defaults filled in; the receipt of an intent is asked for again and again,
  so its answer depends on how many receipt requests went before. \<open>latency\<close> is the time
  the n-th receipt request takes, \<open>timer_lag\<close> the time by which the timer after it
  fires late, in milliseconds; \<open>js\<close> is the engine the requests run on.
\<close>

record gateway =
  quote_fetch :: "QuoteRequest \<Rightarrow> real \<Rightarrow> RouteProvider \<Rightarrow> js_error + Quote response"
  commit_fetch :: "Intent \<Rightarrow> js_error + Committed response"
  execute_fetch :: "ExecuteParams \<Rightarrow> js_error + Executed response"
  receipt_fetch :: "string \<Rightarrow> nat \<Rightarrow> js_error + IntentReceipt response"
  latency :: "nat \<Rightarrow> nat"
  timer_lag :: "nat \<Rightarrow> nat"
  js :: engine

text \<open>
  The clock that \<^verbatim>\<open>Date.now()\<close> reads, in milliseconds, and the clock readings at which
  the receipt requests so far were sent.
\<close>

record env =
  clock :: int
  polled_at :: "int list"

definition quoteIntent :: "gateway \<Rightarrow> QuoteRequest \<Rightarrow> js_error + Quote" where
  "quoteIntent gw params =
     request (js gw)
       (quote_fetch gw params
          (case options params of
             None \<Rightarrow> 0.005
           | Some opts \<Rightarrow> (case slippageTolerance opts of None \<Rightarrow> 0.005 | Some x \<Rightarrow> x))
          (case options params of
             None \<Rightarrow> AUTO
           | Some opts \<Rightarrow> (case bridgeProvider opts of None \<Rightarrow> AUTO | Some p \<Rightarrow> p)))"

definition commitIntent :: "gateway \<Rightarrow> Intent \<Rightarrow> js_error + Committed" where
  "commitIntent gw i = request (js gw) (commit_fetch gw i)"

definition executeIntent :: "gateway \<Rightarrow> ExecuteParams \<Rightarrow> js_error + Executed" where
  "executeIntent gw params = request (js gw) (execute_fetch gw params)"

definition getIntentReceipt ::
  "gateway \<Rightarrow> string \<Rightarrow> env \<Rightarrow> (js_error + IntentReceipt) \<times> env" where
  "getIntentReceipt gw iid e =
     (let n = length (polled_at e)
      in (request (js gw) (receipt_fetch gw iid n),
          e \<lparr> clock := clock e + int (latency gw n), polled_at := polled_at e @ [clock e] \<rparr>))"

text \<open>
  \<^verbatim>\<open>await new Promise(resolve => setTimeout(resolve, pollInterval))\<close>: the timer fires
  no earlier than asked, and a negative delay counts as none.
\<close>

definition sleep :: "gateway \<Rightarrow> int \<Rightarrow> env \<Rightarrow> env" where
  "sleep gw ms e =
     e \<lparr> clock := clock e + max 0 ms + int (timer_lag gw (length (polled_at e))) \<rparr>"

text \<open>The test that ends the polling.\<close>

definition terminal :: "IntentReceipt \<Rightarrow> bool" where
  "terminal receipt =
     (status receipt = completed \<or> status receipt = failed \<or> status receipt = refunded)"

text \<open>
  The \<^verbatim>\<open>while\<close> loop of \<^verbatim>\<open>waitIntentReceipt\<close>. Nothing bounds the number of its rounds
  but the clock, so the loop is a partial function: \<open>None\<close> is a loop that never ends.
\<close>

partial_function (option) poll_loop ::
  "gateway \<Rightarrow> string \<Rightarrow> int \<Rightarrow> int \<Rightarrow> int \<Rightarrow> env \<Rightarrow> ((js_error + IntentReceipt) \<times> env) option"
where
  "poll_loop gw iid timeout_ms interval_ms startTime e =
     (if clock e - startTime < timeout_ms then
        (case getIntentReceipt gw iid e of
           (Inl err, e1) \<Rightarrow> Some (Inl err, e1)
         | (Inr receipt, e1) \<Rightarrow>
             if terminal receipt then Some (Inr receipt, e1)
             else poll_loop gw iid timeout_ms interval_ms startTime (sleep gw interval_ms e1))
      else Some (Inl (Error ''Intent receipt timeout''), e))"

text \<open>
  \<^verbatim>\<open>options?.timeout ?? 300000\<close> and \<^verbatim>\<open>options?.pollInterval ?? 2000\<close>.
\<close>

definition timeout_of :: "WaitOptions option \<Rightarrow> int" where
  "timeout_of opts =
     (case opts of
        None \<Rightarrow> 300000
      | Some os \<Rightarrow> (case timeout os of None \<Rightarrow> 300000 | Some t \<Rightarrow> t))"

definition pollInterval_of :: "WaitOptions option \<Rightarrow> int" where
  "pollInterval_of opts =
     (case opts of
        None \<Rightarrow> 2000
      | Some os \<Rightarrow> (case pollInterval os of None \<Rightarrow> 2000 | Some p \<Rightarrow> p))"

definition waitIntentReceipt ::
  "gateway \<Rightarrow> string \<Rightarrow> WaitOptions option \<Rightarrow> env \<Rightarrow> ((js_error + IntentReceipt) \<times> env) option"
where
  "waitIntentReceipt gw iid opts e =
     (let timeout_ms = timeout_of opts;
          interval_ms = pollInterval_of opts;
          startTime = clock e
      in poll_loop gw iid timeout_ms interval_ms startTime e)"

section \<open>TrailsService.ts: the purchase\<close>

text \<open>
  A shop item. Its effect is a callback that acts on a world \<open>'w\<close> (in the application,
  the game state manager) and then returns or throws: the pair is what it threw, \<open>None\<close>
  when it returned, and the world it left.
\<close>

record 'w ShopItem =
  id_item :: string
  name :: string
  description :: string
  priceEth :: real
  effect :: "'w \<Rightarrow> js_error option \<times> 'w"

datatype Signer = Signer string

record GamePaymentService =
  trails :: gateway
  signer :: "Signer option"
  address :: "string option"
  treasuryAddress :: string
  destinationChainId_s :: nat

text \<open>
  What a purchase acts on: the world of the item's effect and of the status callback, the
  clock, and a record of the callbacks made, in order.
\<close>

datatype callback = StatusUpdate string | EffectApplied

record 'w purchase =
  world :: 'w
  environment :: env
  calls :: "callback list"

text \<open>
  \<^verbatim>\<open>const update = onStatusUpdate || (() => {})\<close>, called with a label: the status
  callback, when there is one, returns or throws like the effect.
\<close>

definition update ::
  "(string \<Rightarrow> 'w \<Rightarrow> js_error option \<times> 'w) option \<Rightarrow> string \<Rightarrow> 'w purchase \<Rightarrow>
   js_error option \<times> 'w purchase" where
  "update onStatusUpdate label st =
     (case onStatusUpdate of
        None \<Rightarrow> (None, st)
      | Some f \<Rightarrow>
          (case f label (world st) of
             (thrown, w) \<Rightarrow>
               (thrown, st \<lparr> world := w, calls := calls st @ [StatusUpdate label] \<rparr>)))"

text \<open>\<^verbatim>\<open>item.effect()\<close>.\<close>

definition apply_effect :: "'w ShopItem \<Rightarrow> 'w purchase \<Rightarrow> js_error option \<times> 'w purchase" where
  "apply_effect item st =
     (case effect item (world st) of
        (thrown, w) \<Rightarrow> (thrown, st \<lparr> world := w, calls := calls st @ [EffectApplied] \<rparr>))"

text \<open>\<^verbatim>\<open>String.prototype.includes\<close>.\<close>

fun includes_str :: "string \<Rightarrow> string \<Rightarrow> bool" where
  "includes_str [] searchString = (searchString = [])"
| "includes_str (c # cs) searchString =
     (take (length searchString) (c # cs) = searchString \<or> includes_str cs searchString)"

text \<open>The quote request that \<^verbatim>\<open>purchaseItem\<close> builds.\<close>

definition purchase_request :: "GamePaymentService \<Rightarrow> string \<Rightarrow> nat \<Rightarrow> int \<Rightarrow> QuoteRequest" where
  "purchase_request svc addr fromChainId wei =
     \<lparr> ownerAddress = addr,
       originChainId = fromChainId,
       originTokenAddress = NATIVE_TOKEN_ADDRESS,
       originTokenAmount = wei,
       destinationChainId = destinationChainId_s svc,
       destinationTokenAddress = NATIVE_TOKEN_ADDRESS,
       destinationToAddress = treasuryAddress svc,
       tradeType = EXACT_INPUT,
       options = None,
       toCalldata = None \<rparr>"

text \<open>
  The \<^verbatim>\<open>try\<close> block of \<^verbatim>\<open>purchaseItem\<close>: \<open>Inl\<close> is what it throws into the \<^verbatim>\<open>catch\<close>,
  \<open>Inr\<close> the receipt it returns. \<open>parseEther\<close> stands for the library call
  \<^verbatim>\<open>ethers.parseEther(item.priceEth.toString())\<close>, which may throw.
\<close>

definition purchase_try ::
  "(real \<Rightarrow> js_error + int) \<Rightarrow> GamePaymentService \<Rightarrow> string \<Rightarrow> 'w ShopItem \<Rightarrow> nat \<Rightarrow>
   (string \<Rightarrow> 'w \<Rightarrow> js_error option \<times> 'w) option \<Rightarrow> 'w purchase \<Rightarrow>
   ((js_error + IntentReceipt) \<times> 'w purchase) option"
where
  "purchase_try parseEther svc addr item fromChainId onStatusUpdate st0 =
     (case update onStatusUpdate ''Getting best route...'' st0 of
        (Some err, st1) \<Rightarrow> Some (Inl err, st1)
      | (None, st1) \<Rightarrow>
      (case parseEther (priceEth item) of
        Inl err \<Rightarrow> Some (Inl err, st1)
      | Inr wei \<Rightarrow>
      (case quoteIntent (trails svc) (purchase_request svc addr fromChainId wei) of
        Inl err \<Rightarrow> Some (Inl err, st1)
      | Inr quote \<Rightarrow>
      (case update onStatusUpdate ''Locking in rate...'' st1 of
        (Some err, st2) \<Rightarrow> Some (Inl err, st2)
      | (None, st2) \<Rightarrow>
      (case commitIntent (trails svc) (intent quote) of
        Inl err \<Rightarrow> Some (Inl err, st2)
      | Inr committed \<Rightarrow>
      (case update onStatusUpdate ''Confirm in your wallet...'' st2 of
        (Some err, st3) \<Rightarrow> Some (Inl err, st3)
      | (None, st3) \<Rightarrow>
      (case executeIntent (trails svc)
              \<lparr> intentId_x = intentId_c committed, depositSignature = None \<rparr> of
        Inl err \<Rightarrow> Some (Inl err, st3)
      | Inr _ \<Rightarrow>
      (case update onStatusUpdate ''Waiting for confirmation...'' st3 of
        (Some err, st4) \<Rightarrow> Some (Inl err, st4)
      | (None, st4) \<Rightarrow>
      (case waitIntentReceipt (trails svc) (intentId_c committed) None (environment st4) of
        None \<Rightarrow> None
      | Some (Inl err, e') \<Rightarrow> Some (Inl err, st4 \<lparr> environment := e' \<rparr>)
      | Some (Inr receipt, e') \<Rightarrow>
          if status receipt = completed then
            (case apply_effect item (st4 \<lparr> environment := e' \<rparr>) of
               (Some err, st5) \<Rightarrow> Some (Inl err, st5)
             | (None, st5) \<Rightarrow> Some (Inr receipt, st5))
          else Some (Inr receipt, st4 \<lparr> environment := e' \<rparr>))))))))))"

text \<open>
  The \<^verbatim>\<open>catch\<close> clause, as the value it throws for the value it caught; and
  \<^verbatim>\<open>purchaseItem\<close>, whose guard \<^verbatim>\<open>!this.address\<close> holds for \<^verbatim>\<open>null\<close> and for the empty
  string.
\<close>

definition purchase_catch :: "js_error \<Rightarrow> js_error" where
  "purchase_catch err =
     (case err of
        Error msg \<Rightarrow>
          if includes_str msg ''rejected'' then Error ''Transaction rejected by user''
          else err
      | TypeError msg \<Rightarrow>
          if includes_str msg ''rejected'' then Error ''Transaction rejected by user''
          else err
      | Thrown _ \<Rightarrow> err)"

definition purchaseItem ::
  "(real \<Rightarrow> js_error + int) \<Rightarrow> GamePaymentService \<Rightarrow> 'w ShopItem \<Rightarrow> nat \<Rightarrow>
   (string \<Rightarrow> 'w \<Rightarrow> js_error option \<times> 'w) option \<Rightarrow> 'w purchase \<Rightarrow>
   ((js_error + IntentReceipt) \<times> 'w purchase) option"
where
  "purchaseItem parseEther svc item fromChainId onStatusUpdate st =
     (case address svc of
        None \<Rightarrow> Some (Inl (Error ''Wallet not connected''), st)
      | Some addr \<Rightarrow>
          if addr = [] \<or> signer svc = None then
            Some (Inl (Error ''Wallet not connected''), st)
          else
            (case purchase_try parseEther svc addr item fromChainId onStatusUpdate st of
               None \<Rightarrow> None
             | Some (Inl err, st') \<Rightarrow> Some (Inl (purchase_catch err), st')
             | Some (Inr receipt, st') \<Rightarrow> Some (Inr receipt, st')))"

section \<open>Sample inputs\<close>

text \<open>A host whose JSON functions know one text and the value it stands for.\<close>

definition sample_host :: "string \<Rightarrow> jsvalue \<Rightarrow> host" where
  "sample_host text v =
     \<lparr> JSON_stringify = (\<lambda>_. text),
       JSON_parse = (\<lambda>t. if t = text then Some v else None) \<rparr>"

text \<open>A manager with one subscriber and an empty local storage.\<close>

definition sample_manager :: "GameState \<Rightarrow> manager" where
  "sample_manager s = \<lparr> state = s, listeners = [7], storage = Map.empty, trace = [] \<rparr>"

text \<open>
  Subscribers and a storage that never throw; subscriber \<open>l\<close> throwing at every call;
  a storage that is full.
\<close>

definition quiet :: reactions where
  "quiet = \<lparr> listener_throws = (\<lambda>l s. None), setItem_throws = (\<lambda>key text. None) \<rparr>"

definition throwing_at :: "nat \<Rightarrow> reactions" where
  "throwing_at l =
     \<lparr> listener_throws = (\<lambda>k s. if k = l then Some (Error ''boom'') else None),
       setItem_throws = (\<lambda>key text. None) \<rparr>"

definition full_storage :: reactions where
  "full_storage =
     \<lparr> listener_throws = (\<lambda>l s. None),
       setItem_throws = (\<lambda>key text. Some (Error ''The quota has been exceeded.'')) \<rparr>"

text \<open>
  An engine that writes a number as the digits of its whole part, which is right for the
  natural numbers, and words its \<^verbatim>\<open>TypeError\<close> as V8 does.
\<close>

definition sample_engine :: engine where
  "sample_engine =
     \<lparr> Number_toString = (\<lambda>x. digits (nat \<lfloor>x\<rfloor>)),
       null_read_message = ''Cannot read properties of null (reading 'message')'' \<rparr>"

definition sample_response :: "'a \<Rightarrow> 'a response" where
  "sample_response x =
     \<lparr> ok = True, status_code = 200, json_value = Inr (JObject []), json = Inr x \<rparr>"

text \<open>A response that is not ok, with its status and what its body is as JSON.\<close>

definition error_response :: "nat \<Rightarrow> js_error + jsvalue \<Rightarrow> 'a response" where
  "error_response code body =
     \<lparr> ok = False, status_code = code, json_value = body,
       json = (case body of Inl err \<Rightarrow> Inl err | Inr v \<Rightarrow> Inl (Thrown ''not of the expected type'')) \<rparr>"

definition sample_receipt :: "string \<Rightarrow> receipt_status \<Rightarrow> IntentReceipt" where
  "sample_receipt iid st =
     \<lparr> intentId = iid, status = st, originTxHash = None, destinationTxHash = None,
       error = None \<rparr>"

definition sample_intent :: Intent where
  "sample_intent =
     \<lparr> id' = ''intent-1'', originChainId = 137, destinationChainId = 8453,
       originTokenAddress = NATIVE_TOKEN_ADDRESS,
       destinationTokenAddress = NATIVE_TOKEN_ADDRESS,
       originTokenAmount = ''230000000000000'',
       destinationTokenAmount = ''229000000000000'',
       ownerAddress = ''0xowner'', destinationToAddress = ''0xtreasury'',
       expiresAt = 1700000000 \<rparr>"

definition sample_quote :: Quote where
  "sample_quote =
     \<lparr> intent = sample_intent, fromAmount = ''230000000000000'',
       fromAmountMin = ''230000000000000'', toAmount = ''229000000000000'',
       toAmountMin = ''228000000000000'',
       fees = \<lparr> totalFeeAmount = ''1000000000000'', totalFeeAmountUsd = ''0.01'' \<rparr>,
       priceImpact = ''0.1'', completionEstimateSeconds = 30, route = ''RELAY'' \<rparr>"

text \<open>
  A gateway that quotes, commits and executes without fail, and answers the n-th receipt
  request with the status \<open>progress n\<close>; a request takes 150 ms, the timers are punctual.
\<close>

definition sample_gateway :: "(nat \<Rightarrow> receipt_status) \<Rightarrow> gateway" where
  "sample_gateway progress =
     \<lparr> quote_fetch = (\<lambda>params slippage provider. Inr (sample_response sample_quote)),
       commit_fetch =
         (\<lambda>i. Inr (sample_response \<lparr> intentId_c = id' i, expiresAt_c = expiresAt i \<rparr>)),
       execute_fetch = (\<lambda>params. Inr (sample_response \<lparr> txHash = ''0xabc'' \<rparr>)),
       receipt_fetch = (\<lambda>iid n. Inr (sample_response (sample_receipt iid (progress n)))),
       latency = (\<lambda>n. 150),
       timer_lag = (\<lambda>n. 0),
       js = sample_engine \<rparr>"

definition sample_service :: "gateway \<Rightarrow> GamePaymentService" where
  "sample_service gw =
     \<lparr> trails = gw, signer = Some (Signer ''0xowner''), address = Some ''0xowner'',
       treasuryAddress = ''0xtreasury'', destinationChainId_s = 8453 \<rparr>"

text \<open>
  An item whose effect counts its own applications, and one whose effect counts and then
  throws.
\<close>

definition sample_item :: "nat ShopItem" where
  "sample_item =
     \<lparr> id_item = ''click-boost'', name = ''Click Boost'',
       description = ''+10 coins per click permanently.'', priceEth = 0.00023,
       effect = (\<lambda>n. (None, Suc n)) \<rparr>"

definition throwing_item :: "nat ShopItem" where
  "throwing_item = sample_item \<lparr> effect := (\<lambda>n. (Some (Error ''boom''), Suc n)) \<rparr>"

definition sample_purchase :: "nat purchase" where
  "sample_purchase =
     \<lparr> world = 0, environment = \<lparr> clock = 1000, polled_at = [] \<rparr>, calls = [] \<rparr>"

text \<open>A text for a record with twelve coins.\<close>

definition sample_text :: string where
  \<open>sample_text = ''{"coins":12,"clickPower":1,"autoPerSecond":0,"multiplier":1,"multiplierEndTime":0,"totalClicks":0,"totalCoinsEarned":0,"purchaseCount":0}''\<close>

text \<open>A clock at one second, before any receipt request.\<close>

definition sample_env :: env where
  "sample_env = \<lparr> clock = 1000, polled_at = [] \<rparr>"

text \<open>An intent still pending at the first two receipt requests, completed at the third.\<close>

definition settles_third :: "nat \<Rightarrow> receipt_status" where
  "settles_third n = (if n < 2 then pending else completed)"

text \<open>
  A gateway whose second receipt request is answered by status 500 with the message
  \<^verbatim>\<open>boom\<close>, and one whose every request takes nine seconds.
\<close>

definition failing_gateway :: gateway where
  "failing_gateway =
     (sample_gateway (\<lambda>n. pending))
       \<lparr> receipt_fetch :=
           (\<lambda>iid n. if n = 0 then Inr (sample_response (sample_receipt iid pending))
                     else Inr (error_response 500
                                 (Inr (JObject [(''message'', JString ''boom'')])))) \<rparr>"

definition slow_gateway :: gateway where
  "slow_gateway = (sample_gateway (\<lambda>n. completed)) \<lparr> latency := (\<lambda>n. 9000) \<rparr>"

text \<open>The price of the sample item, in wei.\<close>

definition sample_parseEther :: "real \<Rightarrow> js_error + int" where
  "sample_parseEther x = Inr 230000000000000"


section \<open>The game state: what its operations do\<close>

lemma state_notify: "state (notify h m) = state m"
  by (simp add: notify_def saveState_def Let_def)

lemma listeners_notify: "listeners (notify h m) = listeners m"
  by (simp add: notify_def saveState_def Let_def)

lemma trace_notify:
  "trace (notify h m) =
     trace m @ map (\<lambda>l. Invoked l (state m)) (listeners m)
       @ [Saved slot (JSON_stringify h (state_json (state m)))]"
  by (simp add: notify_def saveState_def getState_def Let_def)

lemma storage_notify:
  "storage (notify h m) = (storage m)(slot \<mapsto> JSON_stringify h (state_json (state m)))"
  by (simp add: notify_def saveState_def Let_def)



text \<open>The seven operations, unfolded together.\<close>

lemmas operation_defs = click_def autoGenerate_def addClickPower_def addAutoPerSecond_def
  setMultiplier_def checkMultiplierExpiry_def resetState_def

text \<open>
  C4, the claim as written fails. \<^verbatim>\<open>resetState\<close> takes all three counters back to 0;
  and a click in a state whose \<open>clickPower\<close> is negative (which \<^verbatim>\<open>addClickPower(-5)\<close>
  reaches from the default record) lowers \<open>totalCoinsEarned\<close>.
\<close>

theorem counters_decrease_counterexample:
  "totalClicks (state (snd (perform (sample_host ''{}'' JNull) 0 ResetState
       (sample_manager (defaultState \<lparr> totalClicks := 3, totalCoinsEarned := 3, purchaseCount := 1 \<rparr>)))))
     < totalClicks (state (sample_manager (defaultState \<lparr> totalClicks := 3, totalCoinsEarned := 3, purchaseCount := 1 \<rparr>))) \<and>
   totalCoinsEarned (state (snd (perform (sample_host ''{}'' JNull) 0 ResetState
       (sample_manager (defaultState \<lparr> totalClicks := 3, totalCoinsEarned := 3, purchaseCount := 1 \<rparr>)))))
     < totalCoinsEarned (state (sample_manager (defaultState \<lparr> totalClicks := 3, totalCoinsEarned := 3, purchaseCount := 1 \<rparr>))) \<and>
   purchaseCount (state (snd (perform (sample_host ''{}'' JNull) 0 ResetState
       (sample_manager (defaultState \<lparr> totalClicks := 3, totalCoinsEarned := 3, purchaseCount := 1 \<rparr>)))))
     < purchaseCount (state (sample_manager (defaultState \<lparr> totalClicks := 3, totalCoinsEarned := 3, purchaseCount := 1 \<rparr>))) \<and>
   totalCoinsEarned (state (snd (perform (sample_host ''{}'' JNull) 0 Click
       (sample_manager (defaultState \<lparr> clickPower := - 4 \<rparr>)))))
     < totalCoinsEarned (state (sample_manager (defaultState \<lparr> clickPower := - 4 \<rparr>)))"
  by (simp add: resetState_def click_def state_notify sample_manager_def defaultState_def Let_def)

text \<open>
  C4, as the code has it. Every operation but \<^verbatim>\<open>resetState\<close> leaves \<open>totalClicks\<close> and
  \<open>purchaseCount\<close> at least as large as they were, and \<open>totalCoinsEarned\<close> too when
  \<open>clickPower\<close> and \<open>multiplier\<close> are not negative; \<^verbatim>\<open>resetState\<close> sets the three
  counters to 0.
\<close>

theorem counters_monotone_except_reset:
  "(c \<noteq> ResetState \<longrightarrow>
      totalClicks (state m) \<le> totalClicks (state (snd (perform h now c m))) \<and>
      purchaseCount (state m) \<le> purchaseCount (state (snd (perform h now c m)))) \<and>
   (c \<noteq> ResetState \<and> 0 \<le> clickPower (state m) \<and> 0 \<le> multiplier (state m) \<longrightarrow>
      totalCoinsEarned (state m) \<le> totalCoinsEarned (state (snd (perform h now c m)))) \<and>
   (c = ResetState \<longrightarrow>
      totalClicks (state (snd (perform h now c m))) = 0 \<and>
      totalCoinsEarned (state (snd (perform h now c m))) = 0 \<and>
      purchaseCount (state (snd (perform h now c m))) = 0)"
  by (cases c) (auto simp: operation_defs Let_def state_notify defaultState_def)

text \<open>C4 at sample inputs: a click and a reset of the default record.\<close>

theorem counters_monotone_except_reset_witness:
  "Click \<noteq> ResetState \<and>
   0 \<le> clickPower (state (sample_manager defaultState)) \<and>
   0 \<le> multiplier (state (sample_manager defaultState)) \<and>
   totalClicks (state (sample_manager defaultState))
     \<le> totalClicks (state (snd (perform (sample_host ''{}'' JNull) 0 Click (sample_manager defaultState)))) \<and>
   purchaseCount (state (sample_manager defaultState))
     \<le> purchaseCount (state (snd (perform (sample_host ''{}'' JNull) 0 Click (sample_manager defaultState)))) \<and>
   totalCoinsEarned (state (sample_manager defaultState))
     \<le> totalCoinsEarned (state (snd (perform (sample_host ''{}'' JNull) 0 Click (sample_manager defaultState)))) \<and>
   totalClicks (state (snd (perform (sample_host ''{}'' JNull) 0 ResetState (sample_manager defaultState)))) = 0"
  using counters_monotone_except_reset [of Click "sample_manager defaultState" "sample_host ''{}'' JNull" 0]
        counters_monotone_except_reset [of ResetState "sample_manager defaultState" "sample_host ''{}'' JNull" 0]
  by (simp add: sample_manager_def defaultState_def)







lemma state_json_inj: "(state_json s = state_json s') = (s = s')"
  by (cases s, cases s') (auto simp: state_json_def)

text \<open>
  C2, the claim as written fails. A stored object with a missing key is not replaced by the
  default record: the slot holds the text of an object with the single property
  \<open>coins\<close>, and \<^verbatim>\<open>loadState\<close> returns that object as parsed.
\<close>

theorem loadState_missing_keys_counterexample:
  \<open>loadState (sample_host ''{"coins":5}'' (JObject [(''coins'', JNumber 5)]))
      [slot \<mapsto> ''{"coins":5}'']
     = JObject [(''coins'', JNumber 5)] \<and>
   loadState (sample_host ''{"coins":5}'' (JObject [(''coins'', JNumber 5)]))
      [slot \<mapsto> ''{"coins":5}'']
     \<noteq> state_json defaultState\<close>
  by (simp add: loadState_def sample_host_def state_json_def)

text \<open>
  C2, as the code has it. Loading after saving gives back the saved record, on a host
  whose \<^verbatim>\<open>JSON.parse\<close> undoes its \<^verbatim>\<open>JSON.stringify\<close> on that record (and two records
  with the same object are the same record). A missing slot, an empty text and a text
  that \<^verbatim>\<open>JSON.parse\<close> rejects give the default record. Any other text gives the value
  \<^verbatim>\<open>JSON.parse\<close> makes of it, whatever its keys: nothing is validated, nothing is
  merged with the defaults.
\<close>

theorem loadState_roundtrip_and_fallback:
  "(JSON_parse h (JSON_stringify h (state_json (state m))) = Some (state_json (state m)) \<and>
    JSON_stringify h (state_json (state m)) \<noteq> []
      \<longrightarrow> loadState h (storage (saveState h m)) = state_json (state m)) \<and>
   ((state_json s = state_json s') = (s = s')) \<and>
   (ls slot = None \<longrightarrow> loadState h ls = state_json defaultState) \<and>
   (ls slot = Some [] \<longrightarrow> loadState h ls = state_json defaultState) \<and>
   (ls slot = Some saved \<and> JSON_parse h saved = None
      \<longrightarrow> loadState h ls = state_json defaultState) \<and>
   (ls slot = Some saved \<and> saved \<noteq> [] \<and> JSON_parse h saved = Some v
      \<longrightarrow> loadState h ls = v)"
  by (simp add: loadState_def saveState_def Let_def state_json_inj)

text \<open>C2 at sample inputs: a round trip, the three fallbacks, and a stored array.\<close>

theorem loadState_roundtrip_and_fallback_witness:
  \<open>loadState (sample_host sample_text (state_json (defaultState \<lparr> coins := 12 \<rparr>)))
      (storage (saveState (sample_host sample_text (state_json (defaultState \<lparr> coins := 12 \<rparr>)))
         (sample_manager (defaultState \<lparr> coins := 12 \<rparr>))))
     = state_json (defaultState \<lparr> coins := 12 \<rparr>) \<and>
   loadState (sample_host ''{}'' JNull) Map.empty = state_json defaultState \<and>
   loadState (sample_host ''{}'' JNull) [slot \<mapsto> ''''] = state_json defaultState \<and>
   loadState (sample_host ''{}'' JNull) [slot \<mapsto> ''{coins''] = state_json defaultState \<and>
   loadState (sample_host ''[1]'' (JArray [JNumber 1])) [slot \<mapsto> ''[1]''] = JArray [JNumber 1]\<close>
proof -
  let ?s = "defaultState \<lparr> coins := 12 \<rparr>"
  let ?h = "sample_host sample_text (state_json ?s)"
  let ?m = "sample_manager ?s"
  have ne: "sample_text \<noteq> []"
    by (simp add: sample_text_def)
  have hyp: "JSON_parse ?h (JSON_stringify ?h (state_json (state ?m))) = Some (state_json (state ?m)) \<and>
             JSON_stringify ?h (state_json (state ?m)) \<noteq> []"
    using ne by (simp add: sample_host_def sample_manager_def)
  have 1: "loadState ?h (storage (saveState ?h ?m)) = state_json ?s"
    using loadState_roundtrip_and_fallback [of ?h ?m] hyp by (simp add: sample_manager_def)
  have 2: "loadState (sample_host ''{}'' JNull) Map.empty = state_json defaultState"
    using loadState_roundtrip_and_fallback [of "sample_host ''{}'' JNull" _ _ _ Map.empty]
    by simp
  have 3: "loadState (sample_host ''{}'' JNull) [slot \<mapsto> ''''] = state_json defaultState"
    using loadState_roundtrip_and_fallback [of "sample_host ''{}'' JNull" _ _ _ "[slot \<mapsto> '''']"]
    by simp
  have 4: "loadState (sample_host ''{}'' JNull) [slot \<mapsto> ''{coins''] = state_json defaultState"
    using loadState_roundtrip_and_fallback
            [of "sample_host ''{}'' JNull" _ _ _ "[slot \<mapsto> ''{coins'']" "''{coins''"]
    by (simp add: sample_host_def)
  have 5: "loadState (sample_host ''[1]'' (JArray [JNumber 1])) [slot \<mapsto> ''[1]'']
             = JArray [JNumber 1]"
    using loadState_roundtrip_and_fallback
            [of "sample_host ''[1]'' (JArray [JNumber 1])" _ _ _ "[slot \<mapsto> ''[1]'']" "''[1]''"
                "JArray [JNumber 1]"]
    by (simp add: sample_host_def)
  show ?thesis
    using 1 2 3 4 5 by simp
qed

section \<open>The game state: when a subscriber or the storage throws\<close>

lemma forEach_listener_returns:
  "\<forall>x \<in> set ls. listener_throws rx x s = None \<Longrightarrow>
   forEach_listener rx s ls = (None, map (\<lambda>x. Invoked x s) ls)"
  by (induction ls) simp_all

lemma forEach_listener_throws:
  "\<forall>x \<in> set pre. listener_throws rx x s = None \<Longrightarrow> listener_throws rx l s = Some err \<Longrightarrow>
   forEach_listener rx s (pre @ l # post) = (Some err, map (\<lambda>x. Invoked x s) (pre @ [l]))"
  by (induction pre) simp_all

lemma state_notify_exn: "state (snd (notify_exn rx h m)) = state m"
  by (simp add: notify_exn_def saveState_exn_def Let_def split: prod.splits option.splits)

lemma listeners_notify_exn: "listeners (snd (notify_exn rx h m)) = listeners m"
  by (simp add: notify_exn_def saveState_exn_def Let_def split: prod.splits option.splits)

text \<open>\<^verbatim>\<open>notify\<close>, by the way it ends.\<close>

lemma notify_exn_throws:
  assumes "listeners m = pre @ l # post"
      and "\<forall>x \<in> set pre. listener_throws rx x (state m) = None"
      and "listener_throws rx l (state m) = Some err"
  shows "notify_exn rx h m
           = (Some err, m \<lparr> trace := trace m @ map (\<lambda>x. Invoked x (state m)) (pre @ [l]) \<rparr>)"
  using forEach_listener_throws [OF assms(2) assms(3), of post] assms(1)
  by (simp add: notify_exn_def getState_def)

lemma notify_exn_refused:
  assumes "\<forall>x \<in> set (listeners m). listener_throws rx x (state m) = None"
      and "setItem_throws rx slot (JSON_stringify h (state_json (state m))) = Some err"
  shows "notify_exn rx h m
           = (Some err, m \<lparr> trace := trace m @ map (\<lambda>x. Invoked x (state m)) (listeners m) \<rparr>)"
  using forEach_listener_returns [OF assms(1)] assms(2)
  by (simp add: notify_exn_def getState_def saveState_exn_def Let_def)

lemma notify_exn_returns:
  assumes "\<forall>x \<in> set (listeners m). listener_throws rx x (state m) = None"
      and "setItem_throws rx slot (JSON_stringify h (state_json (state m))) = None"
  shows "notify_exn rx h m
           = (None,
              m \<lparr> storage := (storage m)(slot \<mapsto> JSON_stringify h (state_json (state m))),
                  trace := trace m @ map (\<lambda>x. Invoked x (state m)) (listeners m)
                             @ [Saved slot (JSON_stringify h (state_json (state m)))] \<rparr>)"
  using forEach_listener_returns [OF assms(1)] assms(2)
  by (simp add: notify_exn_def getState_def saveState_exn_def Let_def)

text \<open>
  With subscribers and a storage that never throw, the operations are the ones of the
  first section; and whatever is thrown, the change of the state is the same.
\<close>

lemma notify_exn_quiet:
  "\<forall>l s. listener_throws rx l s = None \<Longrightarrow> \<forall>key text. setItem_throws rx key text = None \<Longrightarrow>
   notify_exn rx h m = (None, notify h m)"
  using notify_exn_returns [of m rx h]
  by (simp add: notify_def saveState_def getState_def Let_def)

lemmas operation_exn_defs = click_exn_def autoGenerate_exn_def addClickPower_exn_def
  addAutoPerSecond_exn_def setMultiplier_exn_def checkMultiplierExpiry_exn_def
  resetState_exn_def

lemma perform_exn_quiet:
  "\<forall>l s. listener_throws rx l s = None \<Longrightarrow> \<forall>key text. setItem_throws rx key text = None \<Longrightarrow>
   perform_exn rx h now c m = (Inr (fst (perform h now c m)), snd (perform h now c m))"
  by (cases c)
     (simp_all add: operation_exn_defs operation_defs notify_exn_quiet returning_def Let_def)

lemma state_returning: "state (snd (returning v r)) = state (snd r)"
  by (simp add: returning_def split: prod.splits option.splits)

lemma snd_map_result: "snd (case p of (r, m') \<Rightarrow> (f r, m')) = snd p"
  by (cases p) simp

lemma fst_map_result: "fst (case p of (r, m') \<Rightarrow> (f r, m')) = f (fst p)"
  by (cases p) simp

lemma state_perform_exn:
  "state (snd (perform_exn rx h now c m)) = state (snd (perform h now c m))"
  by (cases c)
     (simp_all add: operation_exn_defs operation_defs snd_map_result state_returning
        state_notify_exn state_notify Let_def)

text \<open>
  An operation that notifies is its change of the state, then \<^verbatim>\<open>notify\<close>, then its
  \<^verbatim>\<open>return\<close>; one that has nothing to do returns at once.
\<close>

lemma perform_exn_idle:
  assumes "(c = AutoGenerate \<and> autoPerSecond (state m) \<le> 0) \<or>
           (c = CheckMultiplierExpiry \<and>
              (multiplier (state m) \<le> 1 \<or> now \<le> multiplierEndTime (state m)))"
  shows "perform_exn rx h now c m = (Inr (fst (perform h now c m)), m)"
  using assms by (auto simp: operation_exn_defs operation_defs)

lemma perform_exn_notifying:
  assumes "\<not> ((c = AutoGenerate \<and> autoPerSecond (state m) \<le> 0) \<or>
              (c = CheckMultiplierExpiry \<and>
                 (multiplier (state m) \<le> 1 \<or> now \<le> multiplierEndTime (state m))))"
  shows "perform_exn rx h now c m
           = (case notify_exn rx h (m \<lparr> state := state (snd (perform h now c m)) \<rparr>) of
                (Some err, m') \<Rightarrow> (Inl err, m')
              | (None, m') \<Rightarrow> (Inr (fst (perform h now c m)), m'))"
  using assms
  by (cases c)
     (auto simp: operation_exn_defs operation_defs returning_def state_notify Let_def
           split: prod.splits option.splits)

text \<open>
  C3, the claim as written fails. On a click of a manager with two subscribers, the
  subscribers are called first, in the order in which they subscribed, and the record is
  written to local storage after them. When the first subscriber throws, the click throws,
  the second subscriber is not called and the record is not written at all; neither is
  it written when the storage refuses the write.
\<close>

theorem persist_before_notify_counterexample:
  "perform_exn quiet (sample_host ''{}'' JNull) 0 Click
       (subscribe 8 (sample_manager defaultState))
     = (Inr (Number 1),
        \<lparr> state = defaultState \<lparr> coins := 1, totalClicks := 1, totalCoinsEarned := 1 \<rparr>,
          listeners = [7, 8],
          storage = [''cryptoClickerState'' \<mapsto> ''{}''],
          trace =
            [ Invoked 7 (defaultState \<lparr> coins := 1, totalClicks := 1, totalCoinsEarned := 1 \<rparr>),
              Invoked 8 (defaultState \<lparr> coins := 1, totalClicks := 1, totalCoinsEarned := 1 \<rparr>),
              Saved ''cryptoClickerState'' ''{}'' ] \<rparr>) \<and>
   perform_exn (throwing_at 7) (sample_host ''{}'' JNull) 0 Click
       (subscribe 8 (sample_manager defaultState))
     = (Inl (Error ''boom''),
        \<lparr> state = defaultState \<lparr> coins := 1, totalClicks := 1, totalCoinsEarned := 1 \<rparr>,
          listeners = [7, 8],
          storage = Map.empty,
          trace =
            [ Invoked 7 (defaultState \<lparr> coins := 1, totalClicks := 1, totalCoinsEarned := 1 \<rparr>) ] \<rparr>) \<and>
   perform_exn full_storage (sample_host ''{}'' JNull) 0 Click
       (subscribe 8 (sample_manager defaultState))
     = (Inl (Error ''The quota has been exceeded.''),
        \<lparr> state = defaultState \<lparr> coins := 1, totalClicks := 1, totalCoinsEarned := 1 \<rparr>,
          listeners = [7, 8],
          storage = Map.empty,
          trace =
            [ Invoked 7 (defaultState \<lparr> coins := 1, totalClicks := 1, totalCoinsEarned := 1 \<rparr>),
              Invoked 8 (defaultState \<lparr> coins := 1, totalClicks := 1, totalCoinsEarned := 1 \<rparr>) ] \<rparr>)"
  by (simp add: click_exn_def returning_def notify_exn_def saveState_exn_def getState_def
        subscribe_def quiet_def throwing_at_def full_storage_def sample_manager_def
        sample_host_def defaultState_def slot_def Let_def)

text \<open>
  C3, as the code has it. A call that has nothing to do (\<^verbatim>\<open>autoGenerate\<close> with
  \<open>autoPerSecond \<le> 0\<close>, \<^verbatim>\<open>checkMultiplierExpiry\<close> with nothing to expire) returns and
  leaves the manager as it was. Every other call of the seven operations first changes
  the state, and the change stays whatever follows. It then calls the subscribers one
  after the other with the changed state. When one of them throws, the operation throws
  the same, the subscribers after that one are not called and nothing is written to the
  storage. When all have returned, the changed record is written to the storage slot, and
  the operation returns; unless the storage throws at the write, which the operation then
  throws, with the slot as it was.
\<close>

theorem mutation_notifies_then_persists:
  "let idle = ((c = AutoGenerate \<and> autoPerSecond (state m) \<le> 0) \<or>
               (c = CheckMultiplierExpiry \<and>
                  (multiplier (state m) \<le> 1 \<or> now \<le> multiplierEndTime (state m))));
       out = fst (perform_exn rx h now c m);
       m' = snd (perform_exn rx h now c m);
       s' = state (snd (perform h now c m));
       written = JSON_stringify h (state_json s')
   in state m' = s' \<and> listeners m' = listeners m \<and>
      (idle \<longrightarrow> m' = m \<and> out = Inr (fst (perform h now c m))) \<and>
      (\<not> idle \<longrightarrow>
         (\<forall>pre l post err.
            listeners m = pre @ l # post \<and>
            (\<forall>x \<in> set pre. listener_throws rx x s' = None) \<and>
            listener_throws rx l s' = Some err \<longrightarrow>
              out = Inl err \<and>
              trace m' = trace m @ map (\<lambda>x. Invoked x s') (pre @ [l]) \<and>
              storage m' = storage m) \<and>
         ((\<forall>x \<in> set (listeners m). listener_throws rx x s' = None) \<longrightarrow>
            (\<forall>err. setItem_throws rx slot written = Some err \<longrightarrow>
               out = Inl err \<and>
               trace m' = trace m @ map (\<lambda>x. Invoked x s') (listeners m) \<and>
               storage m' = storage m) \<and>
            (setItem_throws rx slot written = None \<longrightarrow>
               out = Inr (fst (perform h now c m)) \<and>
               trace m' = trace m @ map (\<lambda>x. Invoked x s') (listeners m) @ [Saved slot written] \<and>
               storage m' = (storage m)(slot \<mapsto> written))))"
proof -
  let ?idle = "(c = AutoGenerate \<and> autoPerSecond (state m) \<le> 0) \<or>
               (c = CheckMultiplierExpiry \<and>
                  (multiplier (state m) \<le> 1 \<or> now \<le> multiplierEndTime (state m)))"
  let ?s = "state (snd (perform h now c m))"
  let ?m0 = "m \<lparr> state := ?s \<rparr>"
  let ?w = "JSON_stringify h (state_json ?s)"
  let ?R = "perform_exn rx h now c m"
  have st: "state (snd ?R) = ?s"
    by (rule state_perform_exn)
  have ls: "listeners (snd ?R) = listeners m"
  proof (cases ?idle)
    case True
    then show ?thesis by (simp add: perform_exn_idle)
  next
    case False
    have "listeners (snd (notify_exn rx h ?m0)) = listeners m"
      by (simp add: listeners_notify_exn)
    then show ?thesis
      by (cases "notify_exn rx h ?m0")
         (auto simp: perform_exn_notifying [OF False] split: option.splits)
  qed
  have idle: "?idle \<longrightarrow> snd ?R = m \<and> fst ?R = Inr (fst (perform h now c m))"
    by (simp add: perform_exn_idle)
  have thrown: "\<not> ?idle \<longrightarrow>
         (\<forall>pre l post err.
            listeners m = pre @ l # post \<and>
            (\<forall>x \<in> set pre. listener_throws rx x ?s = None) \<and>
            listener_throws rx l ?s = Some err \<longrightarrow>
              fst ?R = Inl err \<and>
              trace (snd ?R) = trace m @ map (\<lambda>x. Invoked x ?s) (pre @ [l]) \<and>
              storage (snd ?R) = storage m)"
  proof (intro impI allI)
    fix pre l post err
    assume n: "\<not> ?idle"
       and a: "listeners m = pre @ l # post \<and>
               (\<forall>x \<in> set pre. listener_throws rx x ?s = None) \<and>
               listener_throws rx l ?s = Some err"
    have "notify_exn rx h ?m0
            = (Some err, ?m0 \<lparr> trace := trace ?m0 @ map (\<lambda>x. Invoked x (state ?m0)) (pre @ [l]) \<rparr>)"
      using a by (intro notify_exn_throws [where post = post]) simp_all
    then show "fst ?R = Inl err \<and>
               trace (snd ?R) = trace m @ map (\<lambda>x. Invoked x ?s) (pre @ [l]) \<and>
               storage (snd ?R) = storage m"
      by (simp add: perform_exn_notifying [OF n])
  qed
  have returned: "\<not> ?idle \<longrightarrow>
         ((\<forall>x \<in> set (listeners m). listener_throws rx x ?s = None) \<longrightarrow>
            (\<forall>err. setItem_throws rx slot ?w = Some err \<longrightarrow>
               fst ?R = Inl err \<and>
               trace (snd ?R) = trace m @ map (\<lambda>x. Invoked x ?s) (listeners m) \<and>
               storage (snd ?R) = storage m) \<and>
            (setItem_throws rx slot ?w = None \<longrightarrow>
               fst ?R = Inr (fst (perform h now c m)) \<and>
               trace (snd ?R) = trace m @ map (\<lambda>x. Invoked x ?s) (listeners m) @ [Saved slot ?w] \<and>
               storage (snd ?R) = (storage m)(slot \<mapsto> ?w)))"
  proof (intro impI conjI allI)
    fix err
    assume n: "\<not> ?idle"
       and q: "\<forall>x \<in> set (listeners m). listener_throws rx x ?s = None"
       and f: "setItem_throws rx slot ?w = Some err"
    have "notify_exn rx h ?m0
            = (Some err, ?m0 \<lparr> trace := trace ?m0 @ map (\<lambda>x. Invoked x (state ?m0)) (listeners ?m0) \<rparr>)"
      using q f by (intro notify_exn_refused) simp_all
    then have r: "?R = (Inl err, ?m0 \<lparr> trace := trace m @ map (\<lambda>x. Invoked x ?s) (listeners m) \<rparr>)"
      by (simp add: perform_exn_notifying [OF n])
    show "fst ?R = Inl err" using r by simp
    show "trace (snd ?R) = trace m @ map (\<lambda>x. Invoked x ?s) (listeners m)" using r by simp
    show "storage (snd ?R) = storage m" using r by simp
  next
    assume n: "\<not> ?idle"
       and q: "\<forall>x \<in> set (listeners m). listener_throws rx x ?s = None"
       and f: "setItem_throws rx slot ?w = None"
    have "notify_exn rx h ?m0
            = (None,
               ?m0 \<lparr> storage := (storage ?m0)(slot \<mapsto> JSON_stringify h (state_json (state ?m0))),
                     trace := trace ?m0 @ map (\<lambda>x. Invoked x (state ?m0)) (listeners ?m0)
                                @ [Saved slot (JSON_stringify h (state_json (state ?m0)))] \<rparr>)"
      using q f by (intro notify_exn_returns) simp_all
    then have r: "?R = (Inr (fst (perform h now c m)),
               ?m0 \<lparr> storage := (storage m)(slot \<mapsto> ?w),
                     trace := trace m @ map (\<lambda>x. Invoked x ?s) (listeners m) @ [Saved slot ?w] \<rparr>)"
      by (simp add: perform_exn_notifying [OF n])
    show "fst ?R = Inr (fst (perform h now c m))" using r by simp
    show "trace (snd ?R) = trace m @ map (\<lambda>x. Invoked x ?s) (listeners m) @ [Saved slot ?w]"
      using r by simp
    show "storage (snd ?R) = (storage m)(slot \<mapsto> ?w)" using r by simp
  qed
  show ?thesis
    unfolding Let_def using st ls idle thrown returned by blast
qed

text \<open>
  C3 at sample inputs: an idle \<^verbatim>\<open>autoGenerate\<close>; a purchase of click power with two
  subscribers that return; and the same purchase when the first subscriber throws.
\<close>

theorem mutation_notifies_then_persists_witness:
  "perform_exn quiet (sample_host ''{}'' JNull) 0 AutoGenerate (sample_manager defaultState)
     = (Inr (Number 0), sample_manager defaultState) \<and>
   fst (perform_exn quiet (sample_host ''{}'' JNull) 0 (AddClickPower 10)
          (subscribe 8 (sample_manager defaultState))) = Inr Void \<and>
   trace (snd (perform_exn quiet (sample_host ''{}'' JNull) 0 (AddClickPower 10)
          (subscribe 8 (sample_manager defaultState))))
     = [ Invoked 7 (defaultState \<lparr> clickPower := 11, purchaseCount := 1 \<rparr>),
         Invoked 8 (defaultState \<lparr> clickPower := 11, purchaseCount := 1 \<rparr>),
         Saved slot ''{}'' ] \<and>
   storage (snd (perform_exn quiet (sample_host ''{}'' JNull) 0 (AddClickPower 10)
          (subscribe 8 (sample_manager defaultState)))) slot = Some ''{}'' \<and>
   fst (perform_exn (throwing_at 7) (sample_host ''{}'' JNull) 0 (AddClickPower 10)
          (subscribe 8 (sample_manager defaultState))) = Inl (Error ''boom'') \<and>
   state (snd (perform_exn (throwing_at 7) (sample_host ''{}'' JNull) 0 (AddClickPower 10)
          (subscribe 8 (sample_manager defaultState))))
     = defaultState \<lparr> clickPower := 11, purchaseCount := 1 \<rparr> \<and>
   trace (snd (perform_exn (throwing_at 7) (sample_host ''{}'' JNull) 0 (AddClickPower 10)
          (subscribe 8 (sample_manager defaultState))))
     = [ Invoked 7 (defaultState \<lparr> clickPower := 11, purchaseCount := 1 \<rparr>) ] \<and>
   storage (snd (perform_exn (throwing_at 7) (sample_host ''{}'' JNull) 0 (AddClickPower 10)
          (subscribe 8 (sample_manager defaultState)))) slot = None"
proof -
  let ?h = "sample_host ''{}'' JNull"
  let ?m = "sample_manager defaultState"
  let ?m2 = "subscribe 8 ?m"
  let ?s = "defaultState \<lparr> clickPower := 11, purchaseCount := 1 \<rparr>"
  have m2: "?m2 = \<lparr> state = defaultState, listeners = [7, 8], storage = Map.empty, trace = [] \<rparr>"
    by (simp add: subscribe_def sample_manager_def)
  have s: "state (snd (perform ?h 0 (AddClickPower 10) ?m2)) = ?s"
    unfolding m2 by (simp add: addClickPower_def state_notify defaultState_def Let_def)
  have v: "fst (perform ?h 0 (AddClickPower 10) ?m2) = Void"
    by simp
  have w: "JSON_stringify ?h (state_json ?s) = ''{}''"
    by (simp add: sample_host_def)
  note idle = mutation_notifies_then_persists
                [of AutoGenerate ?m 0 quiet ?h, unfolded Let_def]
  note calm = mutation_notifies_then_persists
                [of "AddClickPower 10" ?m2 0 quiet ?h, unfolded Let_def s v w]
  note loud = mutation_notifies_then_persists
                [of "AddClickPower 10" ?m2 0 "throwing_at 7" ?h, unfolded Let_def s v w]
  have 1: "perform_exn quiet ?h 0 AutoGenerate ?m = (Inr (Number 0), ?m)"
    using idle
    by (cases "perform_exn quiet ?h 0 AutoGenerate ?m")
       (simp add: sample_manager_def defaultState_def autoGenerate_def del: perform_exn.simps)
  have 2: "fst (perform_exn quiet ?h 0 (AddClickPower 10) ?m2) = Inr Void \<and>
           trace (snd (perform_exn quiet ?h 0 (AddClickPower 10) ?m2))
             = [Invoked 7 ?s, Invoked 8 ?s, Saved slot ''{}''] \<and>
           storage (snd (perform_exn quiet ?h 0 (AddClickPower 10) ?m2)) slot = Some ''{}''"
    using calm unfolding m2 by (simp add: quiet_def del: perform_exn.simps)
  have 3: "fst (perform_exn (throwing_at 7) ?h 0 (AddClickPower 10) ?m2) = Inl (Error ''boom'') \<and>
           state (snd (perform_exn (throwing_at 7) ?h 0 (AddClickPower 10) ?m2)) = ?s \<and>
           trace (snd (perform_exn (throwing_at 7) ?h 0 (AddClickPower 10) ?m2)) = [Invoked 7 ?s] \<and>
           storage (snd (perform_exn (throwing_at 7) ?h 0 (AddClickPower 10) ?m2)) slot = None"
  proof -
    have busy: "\<not> ((AddClickPower 10 = AutoGenerate \<and> autoPerSecond (state ?m2) \<le> 0) \<or>
                    (AddClickPower 10 = CheckMultiplierExpiry \<and>
                       (multiplier (state ?m2) \<le> 1 \<or> 0 \<le> multiplierEndTime (state ?m2))))"
      by simp
    have first: "listeners ?m2 = [] @ 7 # [8] \<and>
                 (\<forall>x \<in> set []. listener_throws (throwing_at 7) x ?s = None) \<and>
                 listener_throws (throwing_at 7) 7 ?s = Some (Error ''boom'')"
      by (simp add: m2 throwing_at_def)
    note loud [THEN conjunct2, THEN conjunct2, THEN conjunct2, THEN mp, OF busy,
               THEN conjunct1, THEN spec, THEN spec, THEN spec, THEN spec, THEN mp, OF first]
    with loud [THEN conjunct1] show ?thesis
      unfolding m2 by (simp del: perform_exn.simps)
  qed
  show ?thesis
    using 1 2 3 by (simp del: perform_exn.simps)
qed

text \<open>
  The expiry check of a multiplier: what it does when there is something to expire, and
  the state that \<^verbatim>\<open>setMultiplier\<close> leaves, whether or not its own \<^verbatim>\<open>notify\<close> throws.
\<close>

lemma checkMultiplierExpiry_exn_expired:
  assumes "multiplier (state m) > 1 \<and> now > multiplierEndTime (state m)"
  shows "checkMultiplierExpiry_exn rx h now m
           = returning True
               (notify_exn rx h (m \<lparr> state := (state m) \<lparr> multiplier := 1, multiplierEndTime := 0 \<rparr> \<rparr>))"
  using assms by (simp add: checkMultiplierExpiry_exn_def Let_def)

lemma checkMultiplierExpiry_exn_idle:
  assumes "\<not> (multiplier (state m) > 1 \<and> now > multiplierEndTime (state m))"
  shows "checkMultiplierExpiry_exn rx h now m = (Inr False, m)"
  using assms by (auto simp: checkMultiplierExpiry_exn_def)

lemma returning_True_not_False: "fst (returning True r) \<noteq> Inr False"
  by (simp add: returning_def split: prod.splits option.splits)

lemma state_checkMultiplierExpiry_exn_expired:
  assumes "multiplier (state m) > 1 \<and> now > multiplierEndTime (state m)"
  shows "state (snd (checkMultiplierExpiry_exn rx h now m))
           = (state m) \<lparr> multiplier := 1, multiplierEndTime := 0 \<rparr>"
  by (simp add: checkMultiplierExpiry_exn_expired [OF assms] state_returning state_notify_exn)

lemma state_setMultiplier_exn:
  "state (snd (setMultiplier_exn rx h now mult durationMs m))
     = (state m) \<lparr> multiplier := mult, multiplierEndTime := now + durationMs,
                   purchaseCount := purchaseCount (state m) + 1 \<rparr>"
  by (simp add: setMultiplier_exn_def state_returning state_notify_exn Let_def)

text \<open>
  C6, the claim as written fails. A doubling for one second is bought at time 1000 and
  checked at time 2001, after it has run out. The subscriber throws when it is told: the
  check has reset the multiplier, but it throws what the subscriber threw instead of
  returning true, and nothing is written to the storage. The next check returns false, so
  no check has returned true.
\<close>

theorem checkMultiplierExpiry_throws_counterexample:
  "checkMultiplierExpiry_exn (throwing_at 7) (sample_host ''{}'' JNull) 2001
       (snd (setMultiplier_exn quiet (sample_host ''{}'' JNull) 1000 2 1000
               (sample_manager defaultState)))
     = (Inl (Error ''boom''),
        \<lparr> state = defaultState \<lparr> purchaseCount := 1 \<rparr>,
          listeners = [7],
          storage = [''cryptoClickerState'' \<mapsto> ''{}''],
          trace =
            [ Invoked 7 (defaultState \<lparr> multiplier := 2, multiplierEndTime := 2000,
                                         purchaseCount := 1 \<rparr>),
              Saved ''cryptoClickerState'' ''{}'',
              Invoked 7 (defaultState \<lparr> purchaseCount := 1 \<rparr>) ] \<rparr>) \<and>
   fst (checkMultiplierExpiry_exn quiet (sample_host ''{}'' JNull) 3000
          (snd (checkMultiplierExpiry_exn (throwing_at 7) (sample_host ''{}'' JNull) 2001
                  (snd (setMultiplier_exn quiet (sample_host ''{}'' JNull) 1000 2 1000
                          (sample_manager defaultState))))))
     = Inr False"
  by (simp add: checkMultiplierExpiry_exn_def setMultiplier_exn_def returning_def
        notify_exn_def saveState_exn_def getState_def quiet_def throwing_at_def
        sample_manager_def sample_host_def defaultState_def slot_def Let_def)

text \<open>
  C6, as the code has it. When \<open>multiplier > 1\<close> and the clock is past
  \<open>multiplierEndTime\<close>, \<^verbatim>\<open>checkMultiplierExpiry()\<close> sets \<open>multiplier\<close> to 1 and
  \<open>multiplierEndTime\<close> to 0 and then notifies: it calls the subscribers one after the
  other with the reset state and, when all have returned, writes the reset record to the
  storage slot, and returns true. When a subscriber throws, or the storage at the write,
  the check throws the same instead of returning, with the reset made and nothing
  written. In every other case it returns false and leaves the manager as it was; so it
  returns true only when there was a multiplier to expire. After \<^verbatim>\<open>setMultiplier(mult, d)\<close>
  at time \<open>t0\<close> with \<open>mult > 1\<close>, whether that call returned or threw, a check no later
  than \<open>t0 + d\<close> returns false and changes nothing; a check after \<open>t0 + d\<close> resets the
  multiplier to 1 and does not return false, it returns true when no subscriber and no
  write throws; and every check after that one returns false and changes nothing.
\<close>

theorem checkMultiplierExpiry_expires_once:
  "let expired = (multiplier (state m) > 1 \<and> now > multiplierEndTime (state m));
       out = fst (checkMultiplierExpiry_exn rx h now m);
       m' = snd (checkMultiplierExpiry_exn rx h now m);
       s' = (state m) \<lparr> multiplier := 1, multiplierEndTime := 0 \<rparr>;
       written = JSON_stringify h (state_json s');
       m1 = snd (setMultiplier_exn rx0 h t0 mult d m0);
       m2 = snd (checkMultiplierExpiry_exn rx h t m1)
   in (out = Inr True \<longrightarrow> expired) \<and>
      (\<not> expired \<longrightarrow> out = Inr False \<and> m' = m) \<and>
      (expired \<longrightarrow>
         state m' = s' \<and> listeners m' = listeners m \<and> out \<noteq> Inr False \<and>
         (\<forall>pre l post err.
            listeners m = pre @ l # post \<and>
            (\<forall>x \<in> set pre. listener_throws rx x s' = None) \<and>
            listener_throws rx l s' = Some err \<longrightarrow>
              out = Inl err \<and>
              trace m' = trace m @ map (\<lambda>x. Invoked x s') (pre @ [l]) \<and>
              storage m' = storage m) \<and>
         ((\<forall>x \<in> set (listeners m). listener_throws rx x s' = None) \<longrightarrow>
            (\<forall>err. setItem_throws rx slot written = Some err \<longrightarrow>
               out = Inl err \<and>
               trace m' = trace m @ map (\<lambda>x. Invoked x s') (listeners m) \<and>
               storage m' = storage m) \<and>
            (setItem_throws rx slot written = None \<longrightarrow>
               out = Inr True \<and>
               trace m' = trace m @ map (\<lambda>x. Invoked x s') (listeners m) @ [Saved slot written] \<and>
               storage m' = (storage m)(slot \<mapsto> written)))) \<and>
      (1 < mult \<longrightarrow>
         multiplier (state m1) = mult \<and> multiplierEndTime (state m1) = t0 + d \<and>
         (t \<le> t0 + d \<longrightarrow> checkMultiplierExpiry_exn rx h t m1 = (Inr False, m1)) \<and>
         (t0 + d < t \<longrightarrow>
            fst (checkMultiplierExpiry_exn rx h t m1) \<noteq> Inr False \<and>
            multiplier (state m2) = 1 \<and> multiplierEndTime (state m2) = 0 \<and>
            ((\<forall>x \<in> set (listeners m1).
                 listener_throws rx x ((state m1) \<lparr> multiplier := 1, multiplierEndTime := 0 \<rparr>) = None) \<and>
             setItem_throws rx slot
                 (JSON_stringify h
                    (state_json ((state m1) \<lparr> multiplier := 1, multiplierEndTime := 0 \<rparr>))) = None \<longrightarrow>
               fst (checkMultiplierExpiry_exn rx h t m1) = Inr True) \<and>
            checkMultiplierExpiry_exn rx' h t' m2 = (Inr False, m2)))"
proof -
  let ?expired = "multiplier (state m) > 1 \<and> now > multiplierEndTime (state m)"
  let ?R = "checkMultiplierExpiry_exn rx h now m"
  let ?s = "(state m) \<lparr> multiplier := 1, multiplierEndTime := 0 \<rparr>"
  let ?m0 = "m \<lparr> state := ?s \<rparr>"
  let ?w = "JSON_stringify h (state_json ?s)"
  let ?m1 = "snd (setMultiplier_exn rx0 h t0 mult d m0)"
  let ?s1 = "(state ?m1) \<lparr> multiplier := 1, multiplierEndTime := 0 \<rparr>"
  let ?m2 = "snd (checkMultiplierExpiry_exn rx h t ?m1)"
  have idle: "\<not> ?expired \<longrightarrow> fst ?R = Inr False \<and> snd ?R = m"
    by (simp add: checkMultiplierExpiry_exn_idle)
  have only: "fst ?R = Inr True \<longrightarrow> ?expired"
    using idle by auto
  have st: "?expired \<longrightarrow> state (snd ?R) = ?s"
    by (simp add: state_checkMultiplierExpiry_exn_expired)
  have ls: "?expired \<longrightarrow> listeners (snd ?R) = listeners m"
  proof
    assume e: ?expired
    have "listeners (snd (notify_exn rx h ?m0)) = listeners m"
      by (simp add: listeners_notify_exn)
    then show "listeners (snd ?R) = listeners m"
      by (cases "notify_exn rx h ?m0")
         (auto simp: checkMultiplierExpiry_exn_expired [OF e] returning_def split: option.splits)
  qed
  have nf: "?expired \<longrightarrow> fst ?R \<noteq> Inr False"
    by (simp add: checkMultiplierExpiry_exn_expired returning_True_not_False)
  have thrown: "?expired \<longrightarrow>
         (\<forall>pre l post err.
            listeners m = pre @ l # post \<and>
            (\<forall>x \<in> set pre. listener_throws rx x ?s = None) \<and>
            listener_throws rx l ?s = Some err \<longrightarrow>
              fst ?R = Inl err \<and>
              trace (snd ?R) = trace m @ map (\<lambda>x. Invoked x ?s) (pre @ [l]) \<and>
              storage (snd ?R) = storage m)"
  proof (intro impI allI)
    fix pre l post err
    assume e: ?expired
       and a: "listeners m = pre @ l # post \<and>
               (\<forall>x \<in> set pre. listener_throws rx x ?s = None) \<and>
               listener_throws rx l ?s = Some err"
    have "notify_exn rx h ?m0
            = (Some err, ?m0 \<lparr> trace := trace ?m0 @ map (\<lambda>x. Invoked x (state ?m0)) (pre @ [l]) \<rparr>)"
      using a by (intro notify_exn_throws [where post = post]) simp_all
    then show "fst ?R = Inl err \<and>
               trace (snd ?R) = trace m @ map (\<lambda>x. Invoked x ?s) (pre @ [l]) \<and>
               storage (snd ?R) = storage m"
      by (simp add: checkMultiplierExpiry_exn_expired [OF e] returning_def)
  qed
  have refused: "?expired \<longrightarrow> (\<forall>x \<in> set (listeners m). listener_throws rx x ?s = None) \<longrightarrow>
            (\<forall>err. setItem_throws rx slot ?w = Some err \<longrightarrow>
               fst ?R = Inl err \<and>
               trace (snd ?R) = trace m @ map (\<lambda>x. Invoked x ?s) (listeners m) \<and>
               storage (snd ?R) = storage m)"
  proof (intro impI allI)
    fix err
    assume e: ?expired
       and a: "\<forall>x \<in> set (listeners m). listener_throws rx x ?s = None"
       and b: "setItem_throws rx slot ?w = Some err"
    have "notify_exn rx h ?m0
            = (Some err, ?m0 \<lparr> trace := trace ?m0 @ map (\<lambda>x. Invoked x (state ?m0)) (listeners ?m0) \<rparr>)"
      using a b by (intro notify_exn_refused) simp_all
    then show "fst ?R = Inl err \<and>
               trace (snd ?R) = trace m @ map (\<lambda>x. Invoked x ?s) (listeners m) \<and>
               storage (snd ?R) = storage m"
      by (simp add: checkMultiplierExpiry_exn_expired [OF e] returning_def)
  qed
  have returned: "?expired \<longrightarrow> (\<forall>x \<in> set (listeners m). listener_throws rx x ?s = None) \<longrightarrow>
            setItem_throws rx slot ?w = None \<longrightarrow>
               fst ?R = Inr True \<and>
               trace (snd ?R) = trace m @ map (\<lambda>x. Invoked x ?s) (listeners m) @ [Saved slot ?w] \<and>
               storage (snd ?R) = (storage m)(slot \<mapsto> ?w)"
  proof (intro impI)
    assume e: ?expired
       and a: "\<forall>x \<in> set (listeners m). listener_throws rx x ?s = None"
       and b: "setItem_throws rx slot ?w = None"
    have "notify_exn rx h ?m0
            = (None,
               ?m0 \<lparr> storage := (storage ?m0)(slot \<mapsto> JSON_stringify h (state_json (state ?m0))),
                     trace := trace ?m0 @ map (\<lambda>x. Invoked x (state ?m0)) (listeners ?m0)
                                @ [Saved slot (JSON_stringify h (state_json (state ?m0)))] \<rparr>)"
      using a b by (intro notify_exn_returns) simp_all
    then show "fst ?R = Inr True \<and>
               trace (snd ?R) = trace m @ map (\<lambda>x. Invoked x ?s) (listeners m) @ [Saved slot ?w] \<and>
               storage (snd ?R) = (storage m)(slot \<mapsto> ?w)"
      by (simp add: checkMultiplierExpiry_exn_expired [OF e] returning_def)
  qed
  have s1: "multiplier (state ?m1) = mult \<and> multiplierEndTime (state ?m1) = t0 + d"
    by (simp add: state_setMultiplier_exn)
  have early: "t \<le> t0 + d \<longrightarrow> checkMultiplierExpiry_exn rx h t ?m1 = (Inr False, ?m1)"
    using s1 by (simp add: checkMultiplierExpiry_exn_idle)
  have late: "1 < mult \<longrightarrow> t0 + d < t \<longrightarrow>
            fst (checkMultiplierExpiry_exn rx h t ?m1) \<noteq> Inr False \<and>
            multiplier (state ?m2) = 1 \<and> multiplierEndTime (state ?m2) = 0 \<and>
            ((\<forall>x \<in> set (listeners ?m1). listener_throws rx x ?s1 = None) \<and>
             setItem_throws rx slot (JSON_stringify h (state_json ?s1)) = None \<longrightarrow>
               fst (checkMultiplierExpiry_exn rx h t ?m1) = Inr True) \<and>
            checkMultiplierExpiry_exn rx' h t' ?m2 = (Inr False, ?m2)"
  proof (intro impI)
    assume "1 < mult" and "t0 + d < t"
    then have e: "multiplier (state ?m1) > 1 \<and> t > multiplierEndTime (state ?m1)"
      using s1 by simp
    have s2: "state ?m2 = ?s1"
      by (rule state_checkMultiplierExpiry_exn_expired [OF e])
    have a: "fst (checkMultiplierExpiry_exn rx h t ?m1) \<noteq> Inr False"
      by (simp add: checkMultiplierExpiry_exn_expired [OF e] returning_True_not_False)
    have b: "(\<forall>x \<in> set (listeners ?m1). listener_throws rx x ?s1 = None) \<and>
             setItem_throws rx slot (JSON_stringify h (state_json ?s1)) = None \<longrightarrow>
               fst (checkMultiplierExpiry_exn rx h t ?m1) = Inr True"
    proof
      assume q: "(\<forall>x \<in> set (listeners ?m1). listener_throws rx x ?s1 = None) \<and>
                 setItem_throws rx slot (JSON_stringify h (state_json ?s1)) = None"
      have "fst (notify_exn rx h (?m1 \<lparr> state := ?s1 \<rparr>)) = None"
        using q by (subst notify_exn_returns) simp_all
      then show "fst (checkMultiplierExpiry_exn rx h t ?m1) = Inr True"
        by (cases "notify_exn rx h (?m1 \<lparr> state := ?s1 \<rparr>)")
           (simp add: checkMultiplierExpiry_exn_expired [OF e] returning_def)
    qed
    have c: "checkMultiplierExpiry_exn rx' h t' ?m2 = (Inr False, ?m2)"
      by (rule checkMultiplierExpiry_exn_idle) (simp add: s2)
    show "fst (checkMultiplierExpiry_exn rx h t ?m1) \<noteq> Inr False \<and>
          multiplier (state ?m2) = 1 \<and> multiplierEndTime (state ?m2) = 0 \<and>
          ((\<forall>x \<in> set (listeners ?m1). listener_throws rx x ?s1 = None) \<and>
           setItem_throws rx slot (JSON_stringify h (state_json ?s1)) = None \<longrightarrow>
             fst (checkMultiplierExpiry_exn rx h t ?m1) = Inr True) \<and>
          checkMultiplierExpiry_exn rx' h t' ?m2 = (Inr False, ?m2)"
      using a b c by (simp add: s2)
  qed
  show ?thesis
    unfolding Let_def
    using only idle st ls nf thrown refused returned s1 early late
    by blast
qed

text \<open>
  C6 at sample inputs: a doubling for one second bought at time 1000, checked early at
  1500, checked late at 2001 and checked again at 3000, with a subscriber that returns;
  and the late check with a subscriber that throws.
\<close>

theorem checkMultiplierExpiry_expires_once_witness:
  "(1::real) < 2 \<and>
   checkMultiplierExpiry_exn quiet (sample_host ''{}'' JNull) 1500
       (snd (setMultiplier_exn quiet (sample_host ''{}'' JNull) 1000 2 1000
               (sample_manager defaultState)))
     = (Inr False,
        snd (setMultiplier_exn quiet (sample_host ''{}'' JNull) 1000 2 1000
               (sample_manager defaultState))) \<and>
   fst (checkMultiplierExpiry_exn quiet (sample_host ''{}'' JNull) 2001
          (snd (setMultiplier_exn quiet (sample_host ''{}'' JNull) 1000 2 1000
                  (sample_manager defaultState)))) = Inr True \<and>
   multiplier (state (snd (checkMultiplierExpiry_exn quiet (sample_host ''{}'' JNull) 2001
          (snd (setMultiplier_exn quiet (sample_host ''{}'' JNull) 1000 2 1000
                  (sample_manager defaultState)))))) = 1 \<and>
   trace (snd (checkMultiplierExpiry_exn quiet (sample_host ''{}'' JNull) 2001
          (snd (setMultiplier_exn quiet (sample_host ''{}'' JNull) 1000 2 1000
                  (sample_manager defaultState)))))
     = [ Invoked 7 (defaultState \<lparr> multiplier := 2, multiplierEndTime := 2000,
                                  purchaseCount := 1 \<rparr>),
         Saved slot ''{}'',
         Invoked 7 (defaultState \<lparr> purchaseCount := 1 \<rparr>),
         Saved slot ''{}'' ] \<and>
   fst (checkMultiplierExpiry_exn quiet (sample_host ''{}'' JNull) 3000
          (snd (checkMultiplierExpiry_exn quiet (sample_host ''{}'' JNull) 2001
                  (snd (setMultiplier_exn quiet (sample_host ''{}'' JNull) 1000 2 1000
                          (sample_manager defaultState)))))) = Inr False \<and>
   fst (checkMultiplierExpiry_exn (throwing_at 7) (sample_host ''{}'' JNull) 2001
          (snd (setMultiplier_exn quiet (sample_host ''{}'' JNull) 1000 2 1000
                  (sample_manager defaultState)))) = Inl (Error ''boom'') \<and>
   trace (snd (checkMultiplierExpiry_exn (throwing_at 7) (sample_host ''{}'' JNull) 2001
          (snd (setMultiplier_exn quiet (sample_host ''{}'' JNull) 1000 2 1000
                  (sample_manager defaultState)))))
     = [ Invoked 7 (defaultState \<lparr> multiplier := 2, multiplierEndTime := 2000,
                                  purchaseCount := 1 \<rparr>),
         Saved slot ''{}'',
         Invoked 7 (defaultState \<lparr> purchaseCount := 1 \<rparr>) ]"
proof -
  let ?h = "sample_host ''{}'' JNull"
  let ?m1 = "snd (setMultiplier_exn quiet ?h 1000 2 1000 (sample_manager defaultState))"
  let ?s1 = "defaultState \<lparr> multiplier := 2, multiplierEndTime := 2000, purchaseCount := 1 \<rparr>"
  let ?s2 = "defaultState \<lparr> purchaseCount := 1 \<rparr>"
  have m1: "?m1 = \<lparr> state = ?s1, listeners = [7], storage = [slot \<mapsto> ''{}''],
                    trace = [Invoked 7 ?s1, Saved slot ''{}''] \<rparr>"
    by (simp add: setMultiplier_exn_def returning_def notify_exn_def saveState_exn_def
          getState_def quiet_def sample_manager_def sample_host_def defaultState_def Let_def)
  have s2: "(state ?m1) \<lparr> multiplier := 1, multiplierEndTime := 0 \<rparr> = ?s2"
    unfolding m1 by (simp add: defaultState_def)
  have w: "JSON_stringify ?h (state_json ?s2) = ''{}''"
    by (simp add: sample_host_def)
  have expired: "multiplier (state ?m1) > 1 \<and> 2001 > multiplierEndTime (state ?m1)"
    unfolding m1 by simp
  note early = checkMultiplierExpiry_expires_once
      [where m = ?m1 and now = 2001 and rx = quiet and h = ?h and ?rx0.0 = quiet and ?t0.0 = 1000
         and mult = 2 and d = 1000 and ?m0.0 = "sample_manager defaultState" and t = 1500
         and rx' = quiet and t' = 3000,
       unfolded Let_def, THEN conjunct2, THEN conjunct2, THEN conjunct2]
  note late = checkMultiplierExpiry_expires_once
      [where m = ?m1 and now = 2001 and rx = quiet and h = ?h and ?rx0.0 = quiet and ?t0.0 = 1000
         and mult = 2 and d = 1000 and ?m0.0 = "sample_manager defaultState" and t = 2001
         and rx' = quiet and t' = 3000,
       unfolded Let_def s2 w]
  note loud = checkMultiplierExpiry_expires_once
      [where m = ?m1 and now = 2001 and rx = "throwing_at 7" and h = ?h and ?rx0.0 = quiet
         and ?t0.0 = 1000 and mult = 2 and d = 1000 and ?m0.0 = "sample_manager defaultState"
         and t = 2001 and rx' = quiet and t' = 3000,
       unfolded Let_def s2 w, THEN conjunct2, THEN conjunct2, THEN conjunct1, THEN mp,
       OF expired]
  have 1: "checkMultiplierExpiry_exn quiet ?h 1500 ?m1 = (Inr False, ?m1)"
    using early by simp
  have 2: "fst (checkMultiplierExpiry_exn quiet ?h 2001 ?m1) = Inr True \<and>
           multiplier (state (snd (checkMultiplierExpiry_exn quiet ?h 2001 ?m1))) = 1 \<and>
           trace (snd (checkMultiplierExpiry_exn quiet ?h 2001 ?m1))
             = [Invoked 7 ?s1, Saved slot ''{}'', Invoked 7 ?s2, Saved slot ''{}''] \<and>
           fst (checkMultiplierExpiry_exn quiet ?h 3000
                  (snd (checkMultiplierExpiry_exn quiet ?h 2001 ?m1))) = Inr False"
  proof -
    have calm: "\<forall>x \<in> set (listeners ?m1). listener_throws quiet x ?s2 = None"
      by (simp add: quiet_def)
    have taken: "setItem_throws quiet slot ''{}'' = None"
      by (simp add: quiet_def)
    note a = late [THEN conjunct2, THEN conjunct2, THEN conjunct1, THEN mp, OF expired]
    note b = a [THEN conjunct2, THEN conjunct2, THEN conjunct2, THEN conjunct2, THEN mp, OF calm,
                THEN conjunct2, THEN mp, OF taken]
    note c = late [THEN conjunct2, THEN conjunct2, THEN conjunct2]
    from a [THEN conjunct1] b c show ?thesis
      unfolding m1 by (simp add: defaultState_def)
  qed
  have 3: "fst (checkMultiplierExpiry_exn (throwing_at 7) ?h 2001 ?m1) = Inl (Error ''boom'') \<and>
           trace (snd (checkMultiplierExpiry_exn (throwing_at 7) ?h 2001 ?m1))
             = [Invoked 7 ?s1, Saved slot ''{}'', Invoked 7 ?s2]"
  proof -
    have first: "listeners ?m1 = [] @ 7 # [] \<and>
                 (\<forall>x \<in> set []. listener_throws (throwing_at 7) x ?s2 = None) \<and>
                 listener_throws (throwing_at 7) 7 ?s2 = Some (Error ''boom'')"
      by (simp add: m1 throwing_at_def)
    note loud [THEN conjunct2, THEN conjunct2, THEN conjunct2, THEN conjunct1,
               THEN spec, THEN spec, THEN spec, THEN spec, THEN mp, OF first]
    then show ?thesis
      unfolding m1 by simp
  qed
  show ?thesis
    using 1 2 3 by simp
qed

section \<open>The payment gateway: polling for the receipt\<close>

lemma clock_getIntentReceipt:
  "clock (snd (getIntentReceipt gw iid e)) = clock e + int (latency gw (length (polled_at e)))"
  by (simp add: getIntentReceipt_def Let_def)

lemma polled_getIntentReceipt:
  "polled_at (snd (getIntentReceipt gw iid e)) = polled_at e @ [clock e]"
  by (simp add: getIntentReceipt_def Let_def)

lemma fst_getIntentReceipt:
  "fst (getIntentReceipt gw iid e)
     = request (js gw) (receipt_fetch gw iid (length (polled_at e)))"
  by (simp add: getIntentReceipt_def Let_def)

lemma clock_sleep:
  "clock (sleep gw ms e) = clock e + max 0 ms + int (timer_lag gw (length (polled_at e)))"
  by (simp add: sleep_def)

lemma polled_sleep: "polled_at (sleep gw ms e) = polled_at e"
  by (simp add: sleep_def)

text \<open>One round of the loop, by the way it ends.\<close>

lemma poll_loop_timeout:
  "\<not> clock e - s < T \<Longrightarrow>
   poll_loop gw iid T I s e = Some (Inl (Error ''Intent receipt timeout''), e)"
  by (subst poll_loop.simps) simp

lemma poll_loop_error:
  "clock e - s < T \<Longrightarrow>
   request (js gw) (receipt_fetch gw iid (length (polled_at e))) = Inl err \<Longrightarrow>
   poll_loop gw iid T I s e = Some (Inl err, snd (getIntentReceipt gw iid e))"
  by (subst poll_loop.simps) (simp add: getIntentReceipt_def Let_def)

lemma poll_loop_terminal:
  "clock e - s < T \<Longrightarrow>
   request (js gw) (receipt_fetch gw iid (length (polled_at e))) = Inr r \<Longrightarrow> terminal r \<Longrightarrow>
   poll_loop gw iid T I s e = Some (Inr r, snd (getIntentReceipt gw iid e))"
  by (subst poll_loop.simps) (simp add: getIntentReceipt_def Let_def)

lemma poll_loop_again:
  "clock e - s < T \<Longrightarrow>
   request (js gw) (receipt_fetch gw iid (length (polled_at e))) = Inr r \<Longrightarrow> \<not> terminal r \<Longrightarrow>
   poll_loop gw iid T I s e
     = poll_loop gw iid T I s (sleep gw I (snd (getIntentReceipt gw iid e)))"
  by (subst poll_loop.simps) (simp add: getIntentReceipt_def Let_def)

text \<open>
  The loop ends when time passes in every round, and this is how: \<open>ts\<close> are the clock
  readings at which it sent its requests.
\<close>

lemma poll_loop_result:
  assumes I: "0 < I \<or> (\<forall>n. 0 < latency gw n)"
  shows "\<exists>res e' ts. poll_loop gw iid T I s e = Some (res, e') \<and>
           polled_at e' = polled_at e @ ts \<and>
           clock e \<le> clock e' \<and>
           (ts = [] \<longleftrightarrow> \<not> clock e - s < T) \<and>
           (ts \<noteq> [] \<longrightarrow> ts ! 0 = clock e) \<and>
           (\<forall>t \<in> set ts. t - s < T) \<and>
           (\<forall>i. Suc i < length ts \<longrightarrow>
                ts ! Suc i = ts ! i + int (latency gw (length (polled_at e) + i)) + max 0 I
                               + int (timer_lag gw (length (polled_at e) + Suc i))) \<and>
           (\<forall>j. Suc j < length ts \<longrightarrow>
                (\<exists>r. request (js gw) (receipt_fetch gw iid (length (polled_at e) + j)) = Inr r \<and>
                     \<not> terminal r)) \<and>
           (case res of
              Inr r \<Rightarrow>
                ts \<noteq> [] \<and>
                request (js gw) (receipt_fetch gw iid (length (polled_at e) + length ts - 1)) = Inr r \<and>
                terminal r \<and>
                clock e' = last ts + int (latency gw (length (polled_at e) + length ts - 1))
            | Inl err \<Rightarrow>
                (ts \<noteq> [] \<and>
                 request (js gw) (receipt_fetch gw iid (length (polled_at e) + length ts - 1)) = Inl err \<and>
                 clock e' = last ts + int (latency gw (length (polled_at e) + length ts - 1))) \<or>
                (err = Error ''Intent receipt timeout'' \<and> T \<le> clock e' - s \<and>
                 (ts \<noteq> [] \<longrightarrow>
                    (\<exists>r. request (js gw) (receipt_fetch gw iid (length (polled_at e) + length ts - 1)) = Inr r \<and>
                         \<not> terminal r))))"
proof (induction "nat (T - (clock e - s))" arbitrary: e rule: less_induct)
  case less
  let ?n = "length (polled_at e)"
  let ?rq = "\<lambda>k. request (js gw) (receipt_fetch gw iid k)"
  let ?e1 = "snd (getIntentReceipt gw iid e)"
  show ?case
  proof (cases "clock e - s < T")
    case False
    then have "poll_loop gw iid T I s e = Some (Inl (Error ''Intent receipt timeout''), e)"
      by (rule poll_loop_timeout)
    then show ?thesis
      using False
      by (intro exI[of _ "Inl (Error ''Intent receipt timeout'')"] exI[of _ e] exI[of _ "[]"])
         simp
  next
    case True
    show ?thesis
    proof (cases "?rq ?n")
      case (Inl err)
      have "poll_loop gw iid T I s e = Some (Inl err, ?e1)"
        using True Inl by (rule poll_loop_error)
      then show ?thesis
        using True Inl
        by (intro exI[of _ "Inl err"] exI[of _ ?e1] exI[of _ "[clock e]"])
           (simp add: polled_getIntentReceipt clock_getIntentReceipt)
    next
      case (Inr r)
      show ?thesis
      proof (cases "terminal r")
        case t: True
        have "poll_loop gw iid T I s e = Some (Inr r, ?e1)"
          using True Inr t by (rule poll_loop_terminal)
        then show ?thesis
          using True Inr t
          by (intro exI[of _ "Inr r"] exI[of _ ?e1] exI[of _ "[clock e]"])
             (simp add: polled_getIntentReceipt clock_getIntentReceipt)
      next
        case f: False
        let ?e2 = "sleep gw I ?e1"
        have again: "poll_loop gw iid T I s e = poll_loop gw iid T I s ?e2"
          using True Inr f by (rule poll_loop_again)
        have c2: "clock ?e2 = clock e + int (latency gw ?n) + max 0 I + int (timer_lag gw (Suc ?n))"
          by (simp add: clock_sleep clock_getIntentReceipt polled_getIntentReceipt)
        have c3: "clock e < clock ?e2"
        proof -
          have "0 < I \<or> 0 < latency gw ?n"
          proof (cases "0 < I")
            case True
            then show ?thesis by simp
          next
            case False
            with I have "\<forall>n. 0 < latency gw n" by simp
            then have "0 < latency gw ?n" by (rule spec)
            then show ?thesis by simp
          qed
          then show ?thesis
            using c2 by auto
        qed
        have p2: "polled_at ?e2 = polled_at e @ [clock e]"
          by (simp add: polled_sleep polled_getIntentReceipt)
        have len2: "length (polled_at ?e2) = Suc ?n"
          using p2 by simp
        have "nat (T - (clock ?e2 - s)) < nat (T - (clock e - s))"
          using True c3 by linarith
        from less[OF this] obtain res e' ts where
          run: "poll_loop gw iid T I s ?e2 = Some (res, e')"
          and pa: "polled_at e' = polled_at ?e2 @ ts"
          and mono: "clock ?e2 \<le> clock e'"
          and first: "ts \<noteq> [] \<longrightarrow> ts ! 0 = clock ?e2"
          and before: "\<forall>t \<in> set ts. t - s < T"
          and spaced: "\<forall>i. Suc i < length ts \<longrightarrow>
                ts ! Suc i = ts ! i + int (latency gw (length (polled_at ?e2) + i)) + max 0 I
                               + int (timer_lag gw (length (polled_at ?e2) + Suc i))"
          and earlier: "\<forall>j. Suc j < length ts \<longrightarrow>
                (\<exists>r. ?rq (length (polled_at ?e2) + j) = Inr r \<and> \<not> terminal r)"
          and ended: "(case res of
              Inr r \<Rightarrow>
                ts \<noteq> [] \<and> ?rq (length (polled_at ?e2) + length ts - 1) = Inr r \<and> terminal r \<and>
                clock e' = last ts + int (latency gw (length (polled_at ?e2) + length ts - 1))
            | Inl err \<Rightarrow>
                (ts \<noteq> [] \<and> ?rq (length (polled_at ?e2) + length ts - 1) = Inl err \<and>
                 clock e' = last ts + int (latency gw (length (polled_at ?e2) + length ts - 1))) \<or>
                (err = Error ''Intent receipt timeout'' \<and> T \<le> clock e' - s \<and>
                 (ts \<noteq> [] \<longrightarrow>
                    (\<exists>r. ?rq (length (polled_at ?e2) + length ts - 1) = Inr r \<and> \<not> terminal r))))"
          by blast
        let ?ts = "clock e # ts"
        have 1: "poll_loop gw iid T I s e = Some (res, e')"
          using again run by simp
        have 2: "polled_at e' = polled_at e @ ?ts"
          using pa p2 by simp
        have 3: "clock e \<le> clock e'"
          using mono c3 by linarith
        have 4: "(?ts = [] \<longleftrightarrow> \<not> clock e - s < T) \<and> (?ts \<noteq> [] \<longrightarrow> ?ts ! 0 = clock e)"
          using True by simp
        have 5: "\<forall>t \<in> set ?ts. t - s < T"
          using before True by simp
        have 6: "\<forall>i. Suc i < length ?ts \<longrightarrow>
                ?ts ! Suc i = ?ts ! i + int (latency gw (?n + i)) + max 0 I
                                + int (timer_lag gw (?n + Suc i))"
        proof (intro allI impI)
          fix i assume i: "Suc i < length ?ts"
          show "?ts ! Suc i = ?ts ! i + int (latency gw (?n + i)) + max 0 I
                                + int (timer_lag gw (?n + Suc i))"
          proof (cases i)
            case 0
            then have "ts \<noteq> []" using i by auto
            then have "ts ! 0 = clock ?e2" using first by simp
            then show ?thesis using 0 c2 by simp
          next
            case (Suc k)
            then have "Suc k < length ts" using i by simp
            then have "ts ! Suc k = ts ! k + int (latency gw (length (polled_at ?e2) + k)) + max 0 I
                               + int (timer_lag gw (length (polled_at ?e2) + Suc k))"
              using spaced by blast
            then show ?thesis using Suc len2 by simp
          qed
        qed
        have 7: "\<forall>j. Suc j < length ?ts \<longrightarrow> (\<exists>r. ?rq (?n + j) = Inr r \<and> \<not> terminal r)"
        proof (intro allI impI)
          fix j assume j: "Suc j < length ?ts"
          show "\<exists>r. ?rq (?n + j) = Inr r \<and> \<not> terminal r"
          proof (cases j)
            case 0
            then show ?thesis using Inr f by simp
          next
            case (Suc k)
            then have "Suc k < length ts" using j by simp
            then have "\<exists>r. ?rq (length (polled_at ?e2) + k) = Inr r \<and> \<not> terminal r"
              using earlier by blast
            then show ?thesis using Suc len2 by simp
          qed
        qed
        have 8: "(case res of
              Inr r \<Rightarrow>
                ?ts \<noteq> [] \<and> ?rq (?n + length ?ts - 1) = Inr r \<and> terminal r \<and>
                clock e' = last ?ts + int (latency gw (?n + length ?ts - 1))
            | Inl err \<Rightarrow>
                (?ts \<noteq> [] \<and> ?rq (?n + length ?ts - 1) = Inl err \<and>
                 clock e' = last ?ts + int (latency gw (?n + length ?ts - 1))) \<or>
                (err = Error ''Intent receipt timeout'' \<and> T \<le> clock e' - s \<and>
                 (?ts \<noteq> [] \<longrightarrow> (\<exists>r. ?rq (?n + length ?ts - 1) = Inr r \<and> \<not> terminal r))))"
        proof (cases ts)
          case Nil
          then show ?thesis
            using ended Inr f by (cases res) auto
        next
          case (Cons t ts')
          then have "?n + length ?ts - 1 = length (polled_at ?e2) + length ts - 1"
            using len2 by simp
          moreover have "last ?ts = last ts" "ts \<noteq> []"
            using Cons by simp_all
          ultimately show ?thesis
            using ended by (cases res) auto
        qed
        show ?thesis
          by (intro exI[of _ res] exI[of _ e'] exI[of _ ?ts] conjI)
             (use 1 2 3 4 5 6 7 8 in \<open>blast+\<close>)
      qed
    qed
  qed
qed

lemma poll_loop_returns_terminal_aux:
  assumes "poll_loop gw iid T I s e = Some y"
  shows "case fst y of Inr r \<Rightarrow> terminal r | Inl _ \<Rightarrow> True"
  using assms
proof (induct rule: poll_loop.raw_induct [rotated 1, consumes 1, case_names round])
  case (round f gw iid T I s e y)
  obtain res e1 where g: "getIntentReceipt gw iid e = (res, e1)"
    by (cases "getIntentReceipt gw iid e")
  show ?case
  proof (cases "clock e - s < T")
    case False
    then show ?thesis using round(2) by auto
  next
    case True
    show ?thesis
    proof (cases res)
      case (Inl err)
      then show ?thesis using round(2) True g by auto
    next
      case (Inr receipt)
      show ?thesis
      proof (cases "terminal receipt")
        case t: True
        then show ?thesis using round(2) True g Inr by auto
      next
        case f: False
        then have "f gw iid T I s (sleep gw I e1) = Some y"
          using round(2) True g Inr by simp
        then show ?thesis by (rule round(1))
      qed
    qed
  qed
qed

lemma poll_loop_returns_terminal:
  "poll_loop gw iid T I s e = Some (Inr r, e') \<Longrightarrow> terminal r"
  using poll_loop_returns_terminal_aux[of gw iid T I s e "(Inr r, e')"] by simp

lemma waitIntentReceipt_returns_terminal:
  "waitIntentReceipt gw iid opts e = Some (Inr r, e') \<Longrightarrow> terminal r"
  by (simp add: waitIntentReceipt_def Let_def poll_loop_returns_terminal)

text \<open>The sample gateways, polled.\<close>

lemmas sample_defs = sample_gateway_def sample_response_def sample_receipt_def

lemmas poll_defs = getIntentReceipt_def sleep_def request_def terminal_def

lemma sample_wait_completed:
  "waitIntentReceipt (sample_gateway settles_third) ''intent-1'' None sample_env
     = Some (Inr (sample_receipt ''intent-1'' completed),
             \<lparr> clock = 5450, polled_at = [1000, 3150, 5300] \<rparr>)"
  unfolding waitIntentReceipt_def Let_def timeout_of_def pollInterval_of_def sample_env_def
  apply (subst poll_loop.simps)
  apply (simp add: poll_defs sample_defs settles_third_def)
  apply (subst poll_loop.simps)
  apply (simp add: poll_defs sample_defs settles_third_def)
  apply (subst poll_loop.simps)
  apply (simp add: poll_defs sample_defs settles_third_def)
  done

lemma sample_wait_timeout:
  "waitIntentReceipt (sample_gateway (\<lambda>n. processing)) ''intent-1''
       (Some \<lparr> timeout = Some 4000, pollInterval = Some 1500 \<rparr>) sample_env
     = Some (Inl (Error ''Intent receipt timeout''),
             \<lparr> clock = 5950, polled_at = [1000, 2650, 4300] \<rparr>)"
  unfolding waitIntentReceipt_def Let_def timeout_of_def pollInterval_of_def sample_env_def
  apply (subst poll_loop.simps)
  apply (simp add: poll_defs sample_defs)
  apply (subst poll_loop.simps)
  apply (simp add: poll_defs sample_defs)
  apply (subst poll_loop.simps)
  apply (simp add: poll_defs sample_defs)
  apply (subst poll_loop.simps)
  apply (simp add: poll_defs sample_defs)
  done

text \<open>
  C8, the claim as written fails, in two ways. On a gateway that answers the second
  receipt request with status 500 and the message \<^verbatim>\<open>boom\<close>, the wait under the default
  options ends 2300 ms after its start, long before the 300000 ms of the timeout, with
  the error \<^verbatim>\<open>boom\<close>: no terminal receipt was obtained, and the error is not the timeout
  error. On a gateway whose requests take nine seconds, the wait with a timeout of 4000
  ms returns the completed receipt 9000 ms after its start: no terminal receipt was
  obtained before the timeout elapsed, and the wait does not fail.
\<close>

theorem waitIntentReceipt_error_and_late_receipt_counterexample:
  "waitIntentReceipt failing_gateway ''intent-1'' None sample_env
     = Some (Inl (Error ''boom''), \<lparr> clock = 3300, polled_at = [1000, 3150] \<rparr>) \<and>
   waitIntentReceipt slow_gateway ''intent-1''
       (Some \<lparr> timeout = Some 4000, pollInterval = None \<rparr>) sample_env
     = Some (Inr (sample_receipt ''intent-1'' completed),
             \<lparr> clock = 10000, polled_at = [1000] \<rparr>)"
proof -
  have a: "waitIntentReceipt failing_gateway ''intent-1'' None sample_env
             = Some (Inl (Error ''boom''), \<lparr> clock = 3300, polled_at = [1000, 3150] \<rparr>)"
    unfolding waitIntentReceipt_def Let_def timeout_of_def pollInterval_of_def sample_env_def
    apply (subst poll_loop.simps)
    apply (simp add: poll_defs sample_defs failing_gateway_def)
    apply (subst poll_loop.simps)
    apply (simp add: poll_defs sample_defs failing_gateway_def error_response_def
             read_message_def)
    done
  have b: "waitIntentReceipt slow_gateway ''intent-1''
               (Some \<lparr> timeout = Some 4000, pollInterval = None \<rparr>) sample_env
             = Some (Inr (sample_receipt ''intent-1'' completed),
                     \<lparr> clock = 10000, polled_at = [1000] \<rparr>)"
    unfolding waitIntentReceipt_def Let_def timeout_of_def pollInterval_of_def sample_env_def
    apply (subst poll_loop.simps)
    apply (simp add: poll_defs sample_defs slow_gateway_def)
    done
  show ?thesis
    using a b by simp
qed

text \<open>
  C8, as the code has it. The timeout is the one of the options, 300000 ms when the
  options give none, and the poll interval the one of the options, 2000 ms when they give
  none. When time passes in every round (the poll interval is positive, or every request
  takes time), \<^verbatim>\<open>waitIntentReceipt\<close> ends. With a timeout that is not positive it sends
  no request. Otherwise it sends the first receipt request at once and every later one
  when the one before has been answered and the poll interval after that has passed
  (a negative interval counts as none, a timer may fire late); every request is sent
  before the timeout has elapsed, and all but the last are answered by a receipt that is
  not terminal. It returns the receipt of the last request when that one is terminal
  (completed, failed or refunded), which is then the first terminal receipt, however
  late that answer comes; it fails with the error of the last request when that request
  fails; and otherwise the last receipt is not terminal either, the timeout has elapsed,
  and it fails with the error \<^verbatim>\<open>Intent receipt timeout\<close>.
\<close>

theorem waitIntentReceipt_first_terminal_or_timeout:
  "let T = (case opts of
              None \<Rightarrow> 300000
            | Some os \<Rightarrow> (case timeout os of None \<Rightarrow> 300000 | Some t \<Rightarrow> t));
       I = (case opts of
              None \<Rightarrow> 2000
            | Some os \<Rightarrow> (case pollInterval os of None \<Rightarrow> 2000 | Some p \<Rightarrow> p));
       n0 = length (polled_at e)
   in (0 < I \<or> (\<forall>n. 0 < latency gw n)) \<longrightarrow>
      (\<exists>res e' ts.
         waitIntentReceipt gw iid opts e = Some (res, e') \<and>
         polled_at e' = polled_at e @ ts \<and>
         (ts = [] \<longleftrightarrow> T \<le> 0) \<and>
         (ts \<noteq> [] \<longrightarrow> ts ! 0 = clock e) \<and>
         (\<forall>t \<in> set ts. t - clock e < T) \<and>
         (\<forall>i. Suc i < length ts \<longrightarrow>
              ts ! Suc i = ts ! i + int (latency gw (n0 + i)) + max 0 I
                             + int (timer_lag gw (n0 + Suc i))) \<and>
         (\<forall>j. Suc j < length ts \<longrightarrow>
              (\<exists>r. request (js gw) (receipt_fetch gw iid (n0 + j)) = Inr r \<and> \<not> terminal r)) \<and>
         (case res of
            Inr r \<Rightarrow>
              ts \<noteq> [] \<and>
              request (js gw) (receipt_fetch gw iid (n0 + length ts - 1)) = Inr r \<and>
              (status r = completed \<or> status r = failed \<or> status r = refunded) \<and>
              clock e' = last ts + int (latency gw (n0 + length ts - 1))
          | Inl err \<Rightarrow>
              (ts \<noteq> [] \<and>
               request (js gw) (receipt_fetch gw iid (n0 + length ts - 1)) = Inl err \<and>
               clock e' = last ts + int (latency gw (n0 + length ts - 1))) \<or>
              (err = Error ''Intent receipt timeout'' \<and>
               T \<le> clock e' - clock e \<and>
               (ts \<noteq> [] \<longrightarrow>
                  (\<exists>r. request (js gw) (receipt_fetch gw iid (n0 + length ts - 1)) = Inr r \<and>
                       \<not> terminal r)))))"
proof -
  let ?T = "timeout_of opts"
  let ?I = "pollInterval_of opts"
  let ?n = "length (polled_at e)"
  let ?rq = "\<lambda>k. request (js gw) (receipt_fetch gw iid k)"
  have T: "(case opts of
              None \<Rightarrow> 300000
            | Some os \<Rightarrow> (case timeout os of None \<Rightarrow> 300000 | Some t \<Rightarrow> t)) = ?T"
    by (simp add: timeout_of_def)
  have I: "(case opts of
              None \<Rightarrow> 2000
            | Some os \<Rightarrow> (case pollInterval os of None \<Rightarrow> 2000 | Some p \<Rightarrow> p)) = ?I"
    by (simp add: pollInterval_of_def)
  have "\<exists>res e' ts.
         waitIntentReceipt gw iid opts e = Some (res, e') \<and>
         polled_at e' = polled_at e @ ts \<and>
         (ts = [] \<longleftrightarrow> ?T \<le> 0) \<and>
         (ts \<noteq> [] \<longrightarrow> ts ! 0 = clock e) \<and>
         (\<forall>t \<in> set ts. t - clock e < ?T) \<and>
         (\<forall>i. Suc i < length ts \<longrightarrow>
              ts ! Suc i = ts ! i + int (latency gw (?n + i)) + max 0 ?I
                             + int (timer_lag gw (?n + Suc i))) \<and>
         (\<forall>j. Suc j < length ts \<longrightarrow> (\<exists>r. ?rq (?n + j) = Inr r \<and> \<not> terminal r)) \<and>
         (case res of
            Inr r \<Rightarrow>
              ts \<noteq> [] \<and> ?rq (?n + length ts - 1) = Inr r \<and>
              (status r = completed \<or> status r = failed \<or> status r = refunded) \<and>
              clock e' = last ts + int (latency gw (?n + length ts - 1))
          | Inl err \<Rightarrow>
              (ts \<noteq> [] \<and> ?rq (?n + length ts - 1) = Inl err \<and>
               clock e' = last ts + int (latency gw (?n + length ts - 1))) \<or>
              (err = Error ''Intent receipt timeout'' \<and>
               ?T \<le> clock e' - clock e \<and>
               (ts \<noteq> [] \<longrightarrow> (\<exists>r. ?rq (?n + length ts - 1) = Inr r \<and> \<not> terminal r))))"
    if progress: "0 < ?I \<or> (\<forall>n. 0 < latency gw n)"
  proof -
    obtain res e' ts where
      run: "poll_loop gw iid ?T ?I (clock e) e = Some (res, e')"
      and pa: "polled_at e' = polled_at e @ ts"
      and none: "ts = [] \<longleftrightarrow> \<not> clock e - clock e < ?T"
      and first: "ts \<noteq> [] \<longrightarrow> ts ! 0 = clock e"
      and before: "\<forall>t \<in> set ts. t - clock e < ?T"
      and spaced: "\<forall>i. Suc i < length ts \<longrightarrow>
              ts ! Suc i = ts ! i + int (latency gw (?n + i)) + max 0 ?I
                             + int (timer_lag gw (?n + Suc i))"
      and earlier: "\<forall>j. Suc j < length ts \<longrightarrow> (\<exists>r. ?rq (?n + j) = Inr r \<and> \<not> terminal r)"
      and ended: "case res of
            Inr r \<Rightarrow>
              ts \<noteq> [] \<and> ?rq (?n + length ts - 1) = Inr r \<and> terminal r \<and>
              clock e' = last ts + int (latency gw (?n + length ts - 1))
          | Inl err \<Rightarrow>
              (ts \<noteq> [] \<and> ?rq (?n + length ts - 1) = Inl err \<and>
               clock e' = last ts + int (latency gw (?n + length ts - 1))) \<or>
              (err = Error ''Intent receipt timeout'' \<and> ?T \<le> clock e' - clock e \<and>
               (ts \<noteq> [] \<longrightarrow> (\<exists>r. ?rq (?n + length ts - 1) = Inr r \<and> \<not> terminal r)))"
      using poll_loop_result [OF progress, of iid ?T "clock e" e] by blast
    have 1: "waitIntentReceipt gw iid opts e = Some (res, e')"
      using run by (simp add: waitIntentReceipt_def Let_def)
    have 2: "ts = [] \<longleftrightarrow> ?T \<le> 0"
      using none by auto
    have 3: "case res of
            Inr r \<Rightarrow>
              ts \<noteq> [] \<and> ?rq (?n + length ts - 1) = Inr r \<and>
              (status r = completed \<or> status r = failed \<or> status r = refunded) \<and>
              clock e' = last ts + int (latency gw (?n + length ts - 1))
          | Inl err \<Rightarrow>
              (ts \<noteq> [] \<and> ?rq (?n + length ts - 1) = Inl err \<and>
               clock e' = last ts + int (latency gw (?n + length ts - 1))) \<or>
              (err = Error ''Intent receipt timeout'' \<and> ?T \<le> clock e' - clock e \<and>
               (ts \<noteq> [] \<longrightarrow> (\<exists>r. ?rq (?n + length ts - 1) = Inr r \<and> \<not> terminal r)))"
      using ended by (cases res) (simp_all add: terminal_def)
    show ?thesis
      by (intro exI[of _ res] exI[of _ e'] exI[of _ ts] conjI)
         (use 1 pa 2 first before spaced earlier 3 in \<open>blast+\<close>)
  qed
  then show ?thesis
    unfolding Let_def T I by blast
qed

text \<open>
  C8 at sample inputs: an intent that settles at the third request, under the defaults;
  and an intent that never settles, under a timeout of four seconds and a poll interval
  of a second and a half.
\<close>

theorem waitIntentReceipt_first_terminal_or_timeout_witness:
  "0 < (2000 :: int) \<and>
   waitIntentReceipt (sample_gateway settles_third) ''intent-1'' None sample_env
     = Some (Inr (sample_receipt ''intent-1'' completed),
             \<lparr> clock = 5450, polled_at = [1000, 3150, 5300] \<rparr>) \<and>
   0 < (1500 :: int) \<and>
   waitIntentReceipt (sample_gateway (\<lambda>n. processing)) ''intent-1''
       (Some \<lparr> timeout = Some 4000, pollInterval = Some 1500 \<rparr>) sample_env
     = Some (Inl (Error ''Intent receipt timeout''),
             \<lparr> clock = 5950, polled_at = [1000, 2650, 4300] \<rparr>)"
proof -
  note a = waitIntentReceipt_first_terminal_or_timeout
             [where opts = None and gw = "sample_gateway settles_third" and e = sample_env
                and iid = "''intent-1''",
              unfolded Let_def, simplified option.case, THEN mp, OF disjI1]
  note b = waitIntentReceipt_first_terminal_or_timeout
             [where opts = "Some \<lparr> timeout = Some 4000, pollInterval = Some 1500 \<rparr>"
                and gw = "sample_gateway (\<lambda>n. processing)" and e = sample_env
                and iid = "''intent-1''",
              unfolded Let_def, simplified option.case WaitOptions.simps, THEN mp, OF disjI1]
  have h1: "0 < (2000 :: int)"
    by simp
  have h2: "0 < (1500 :: int)"
    by simp
  from a [OF h1] b [OF h2] show ?thesis
    using sample_wait_completed sample_wait_timeout by simp
qed

text \<open>
  C10. With a timeout option that is not positive, \<^verbatim>\<open>waitIntentReceipt\<close> fails at once
  with the error \<^verbatim>\<open>Intent receipt timeout\<close>: the clock and the list of receipt requests
  are as before, so no request was sent, whatever the gateway would have answered.
\<close>

theorem waitIntentReceipt_nonpositive_timeout:
  "timeout_of opts \<le> 0 \<Longrightarrow>
   waitIntentReceipt gw iid opts e = Some (Inl (Error ''Intent receipt timeout''), e)"
  by (simp add: waitIntentReceipt_def Let_def poll_loop_timeout)

text \<open>C10 at a sample input: a timeout of 0 on a gateway that reports completion at once.\<close>

theorem waitIntentReceipt_nonpositive_timeout_witness:
  "timeout_of (Some \<lparr> timeout = Some 0, pollInterval = None \<rparr>) \<le> 0 \<and>
   request (js (sample_gateway (\<lambda>n. completed)))
       (receipt_fetch (sample_gateway (\<lambda>n. completed)) ''intent-1'' 0)
     = Inr (sample_receipt ''intent-1'' completed) \<and>
   waitIntentReceipt (sample_gateway (\<lambda>n. completed)) ''intent-1''
       (Some \<lparr> timeout = Some 0, pollInterval = None \<rparr>) sample_env
     = Some (Inl (Error ''Intent receipt timeout''), sample_env)"
proof -
  have h: "timeout_of (Some \<lparr> timeout = Some 0, pollInterval = None \<rparr>) \<le> 0"
    by (simp add: timeout_of_def)
  show ?thesis
    using h waitIntentReceipt_nonpositive_timeout
              [OF h, of "sample_gateway (\<lambda>n. completed)" "''intent-1''" sample_env]
    by (simp add: request_def sample_defs)
qed

section \<open>The purchase\<close>


text \<open>A status update leaves the clock alone and applies no effect.\<close>

lemma environment_update: "environment (snd (update cb label st)) = environment st"
  by (simp add: update_def split: option.splits prod.splits)

lemma effects_update:
  "count_list (calls (snd (update cb label st))) EffectApplied
     = count_list (calls st) EffectApplied"
  by (simp add: update_def split: option.splits prod.splits)

lemma sample_wait_first:
  "st = completed \<or> st = failed \<or> st = refunded \<Longrightarrow>
   waitIntentReceipt (sample_gateway (\<lambda>n. st)) iid None \<lparr> clock = 1000, polled_at = [] \<rparr>
     = Some (Inr (sample_receipt iid st), \<lparr> clock = 1150, polled_at = [1000] \<rparr>)"
  unfolding waitIntentReceipt_def Let_def timeout_of_def pollInterval_of_def
  apply (subst poll_loop.simps)
  apply (simp add: poll_defs sample_defs)
  done

text \<open>The sample gateway quotes, commits and executes whatever it is asked.\<close>

lemma sample_quoteIntent: "quoteIntent (sample_gateway progress) params = Inr sample_quote"
  by (simp add: quoteIntent_def request_def sample_defs)

lemma sample_commitIntent:
  "commitIntent (sample_gateway progress) (intent sample_quote)
     = Inr \<lparr> intentId_c = ''intent-1'', expiresAt_c = 1700000000 \<rparr>"
  by (simp add: commitIntent_def request_def sample_defs sample_quote_def sample_intent_def)

lemma sample_executeIntent:
  "executeIntent (sample_gateway progress) params = Inr \<lparr> txHash = ''0xabc'' \<rparr>"
  by (simp add: executeIntent_def request_def sample_defs)

lemma status_sample_receipt: "status (sample_receipt iid st) = st"
  by (simp add: sample_receipt_def)

text \<open>
  C1, the claim as written fails. The purchase goes through, the receipt is completed,
  and the item's effect is invoked, once; but the effect throws, and \<^verbatim>\<open>purchaseItem\<close>
  throws what the effect threw instead of returning the receipt.
\<close>

theorem purchaseItem_throwing_effect_counterexample:
  "purchaseItem sample_parseEther (sample_service (sample_gateway (\<lambda>n. completed)))
       throwing_item 137 None sample_purchase
     = Some (Inl (Error ''boom''),
             \<lparr> world = 1, environment = \<lparr> clock = 1150, polled_at = [1000] \<rparr>,
               calls = [EffectApplied] \<rparr>)"
proof -
  have w: "waitIntentReceipt (sample_gateway (\<lambda>n. completed)) ''intent-1'' None
             \<lparr> clock = 1000, polled_at = [] \<rparr>
           = Some (Inr (sample_receipt ''intent-1'' completed),
                   \<lparr> clock = 1150, polled_at = [1000] \<rparr>)"
    by (rule sample_wait_first) simp
  show ?thesis
    by (simp add: purchaseItem_def purchase_try_def purchase_catch_def update_def
          apply_effect_def sample_quoteIntent sample_commitIntent sample_executeIntent
          sample_parseEther_def sample_service_def sample_purchase_def throwing_item_def
          sample_item_def status_sample_receipt w)
qed

text \<open>
  C1, as the code has it. The wallet is connected, the quote, the commit and the execute
  step succeed, the four status updates return, and \<^verbatim>\<open>waitIntentReceipt\<close> returns a
  receipt. Then the receipt is terminal, and no effect has been applied so far. If its
  status is completed, the item's effect is invoked once, after the four status updates
  and as the last thing \<^verbatim>\<open>purchaseItem\<close> does; \<^verbatim>\<open>purchaseItem\<close> then returns the receipt
  when the effect returned, and throws what the effect threw otherwise (as the
  \<^verbatim>\<open>catch\<close> clause passes it on). If the status is failed or refunded, the effect is not
  invoked and the receipt is returned, not thrown.
\<close>

theorem purchaseItem_effect_once:
  assumes "address svc = Some addr" and "addr \<noteq> []" and "signer svc = Some sg"
      and "update onStatusUpdate ''Getting best route...'' st = (None, st1)"
      and "parseEther (priceEth item) = Inr wei"
      and "quoteIntent (trails svc) (purchase_request svc addr fromChainId wei) = Inr quote"
      and "update onStatusUpdate ''Locking in rate...'' st1 = (None, st2)"
      and "commitIntent (trails svc) (intent quote) = Inr committed"
      and "update onStatusUpdate ''Confirm in your wallet...'' st2 = (None, st3)"
      and "executeIntent (trails svc)
             \<lparr> intentId_x = intentId_c committed, depositSignature = None \<rparr> = Inr executed"
      and "update onStatusUpdate ''Waiting for confirmation...'' st3 = (None, st4)"
      and "waitIntentReceipt (trails svc) (intentId_c committed) None (environment st4)
             = Some (Inr receipt, e')"
  shows "(status receipt = completed \<or> status receipt = failed \<or> status receipt = refunded) \<and>
         count_list (calls st4) EffectApplied = count_list (calls st) EffectApplied \<and>
         (status receipt = completed \<longrightarrow>
            (fst (effect item (world st4)) = None \<longrightarrow>
               purchaseItem parseEther svc item fromChainId onStatusUpdate st
                 = Some (Inr receipt,
                         \<lparr> world = snd (effect item (world st4)), environment = e',
                           calls = calls st4 @ [EffectApplied] \<rparr>)) \<and>
            (\<forall>err. fst (effect item (world st4)) = Some err \<longrightarrow>
               purchaseItem parseEther svc item fromChainId onStatusUpdate st
                 = Some (Inl (purchase_catch err),
                         \<lparr> world = snd (effect item (world st4)), environment = e',
                           calls = calls st4 @ [EffectApplied] \<rparr>)) \<and>
            count_list (calls st4 @ [EffectApplied]) EffectApplied
              = Suc (count_list (calls st) EffectApplied)) \<and>
         (status receipt = failed \<or> status receipt = refunded \<longrightarrow>
            purchaseItem parseEther svc item fromChainId onStatusUpdate st
              = Some (Inr receipt,
                      \<lparr> world = world st4, environment = e', calls = calls st4 \<rparr>))"
proof -
  have t: "status receipt = completed \<or> status receipt = failed \<or> status receipt = refunded"
    using waitIntentReceipt_returns_terminal [OF assms(12)] by (simp add: terminal_def)
  have cnt: "count_list (calls st4) EffectApplied = count_list (calls st) EffectApplied"
    using effects_update [of onStatusUpdate "''Getting best route...''" st]
          effects_update [of onStatusUpdate "''Locking in rate...''" st1]
          effects_update [of onStatusUpdate "''Confirm in your wallet...''" st2]
          effects_update [of onStatusUpdate "''Waiting for confirmation...''" st3]
    by (simp add: assms(4) assms(7) assms(9) assms(11))
  have body: "purchase_try parseEther svc addr item fromChainId onStatusUpdate st
               = (if status receipt = completed then
                    (case apply_effect item (st4 \<lparr> environment := e' \<rparr>) of
                       (Some err, st5) \<Rightarrow> Some (Inl err, st5)
                     | (None, st5) \<Rightarrow> Some (Inr receipt, st5))
                  else Some (Inr receipt, st4 \<lparr> environment := e' \<rparr>))"
    by (simp add: purchase_try_def assms)
  have buy: "purchaseItem parseEther svc item fromChainId onStatusUpdate st
               = (case purchase_try parseEther svc addr item fromChainId onStatusUpdate st of
                    None \<Rightarrow> None
                  | Some (Inl err, st') \<Rightarrow> Some (Inl (purchase_catch err), st')
                  | Some (Inr receipt, st') \<Rightarrow> Some (Inr receipt, st'))"
    by (simp add: purchaseItem_def assms(1) assms(2) assms(3))
  have eff: "apply_effect item (st4 \<lparr> environment := e' \<rparr>)
               = (fst (effect item (world st4)),
                  \<lparr> world = snd (effect item (world st4)), environment = e',
                    calls = calls st4 @ [EffectApplied] \<rparr>)"
    by (cases "effect item (world st4)") (simp add: apply_effect_def)
  have flat: "st4 \<lparr> environment := e' \<rparr>
                = \<lparr> world = world st4, environment = e', calls = calls st4 \<rparr>"
    by (cases st4) simp
  have 1: "status receipt = completed \<longrightarrow> fst (effect item (world st4)) = None \<longrightarrow>
               purchaseItem parseEther svc item fromChainId onStatusUpdate st
                 = Some (Inr receipt,
                         \<lparr> world = snd (effect item (world st4)), environment = e',
                           calls = calls st4 @ [EffectApplied] \<rparr>)"
    by (simp add: buy body eff)
  have 2: "status receipt = completed \<longrightarrow>
            (\<forall>err. fst (effect item (world st4)) = Some err \<longrightarrow>
               purchaseItem parseEther svc item fromChainId onStatusUpdate st
                 = Some (Inl (purchase_catch err),
                         \<lparr> world = snd (effect item (world st4)), environment = e',
                           calls = calls st4 @ [EffectApplied] \<rparr>))"
    by (simp add: buy body eff)
  have 3: "count_list (calls st4 @ [EffectApplied]) EffectApplied
              = Suc (count_list (calls st) EffectApplied)"
    using cnt by simp
  have 4: "status receipt = failed \<or> status receipt = refunded \<longrightarrow>
            purchaseItem parseEther svc item fromChainId onStatusUpdate st
              = Some (Inr receipt,
                      \<lparr> world = world st4, environment = e', calls = calls st4 \<rparr>)"
    using flat by (auto simp: buy body)
  show ?thesis
    using t cnt 1 2 3 4 by blast
qed

text \<open>
  C1 at sample inputs, with a status callback that returns: a purchase that completes,
  one that fails, and one that completes for an item whose effect throws.
\<close>

theorem purchaseItem_effect_once_witness:
  "purchaseItem sample_parseEther (sample_service (sample_gateway (\<lambda>n. completed))) sample_item 137
       (Some (\<lambda>label w. (None, w))) sample_purchase
     = Some (Inr (sample_receipt ''intent-1'' completed),
             \<lparr> world = 1, environment = \<lparr> clock = 1150, polled_at = [1000] \<rparr>,
               calls = [ StatusUpdate ''Getting best route...'',
                         StatusUpdate ''Locking in rate...'',
                         StatusUpdate ''Confirm in your wallet...'',
                         StatusUpdate ''Waiting for confirmation...'',
                         EffectApplied ] \<rparr>) \<and>
   purchaseItem sample_parseEther (sample_service (sample_gateway (\<lambda>n. failed))) sample_item 137
       (Some (\<lambda>label w. (None, w))) sample_purchase
     = Some (Inr (sample_receipt ''intent-1'' failed),
             \<lparr> world = 0, environment = \<lparr> clock = 1150, polled_at = [1000] \<rparr>,
               calls = [ StatusUpdate ''Getting best route...'',
                         StatusUpdate ''Locking in rate...'',
                         StatusUpdate ''Confirm in your wallet...'',
                         StatusUpdate ''Waiting for confirmation...'' ] \<rparr>) \<and>
   purchaseItem sample_parseEther (sample_service (sample_gateway (\<lambda>n. completed))) throwing_item 137
       (Some (\<lambda>label w. (None, w))) sample_purchase
     = Some (Inl (Error ''boom''),
             \<lparr> world = 1, environment = \<lparr> clock = 1150, polled_at = [1000] \<rparr>,
               calls = [ StatusUpdate ''Getting best route...'',
                         StatusUpdate ''Locking in rate...'',
                         StatusUpdate ''Confirm in your wallet...'',
                         StatusUpdate ''Waiting for confirmation...'',
                         EffectApplied ] \<rparr>)"
proof -
  let ?svc = "\<lambda>st. sample_service (sample_gateway (\<lambda>n. st))"
  let ?cb = "Some (\<lambda>label w. (None, w)) :: (string \<Rightarrow> nat \<Rightarrow> js_error option \<times> nat) option"
  let ?committed = "\<lparr> intentId_c = ''intent-1'', expiresAt_c = 1700000000 \<rparr>"
  let ?e = "\<lparr> clock = 1000, polled_at = [] \<rparr>"
  let ?st1 = "\<lparr> world = 0 :: nat, environment = ?e,
                calls = [StatusUpdate ''Getting best route...''] \<rparr>"
  let ?st2 = "\<lparr> world = 0 :: nat, environment = ?e,
                calls = [StatusUpdate ''Getting best route...'',
                         StatusUpdate ''Locking in rate...''] \<rparr>"
  let ?st3 = "\<lparr> world = 0 :: nat, environment = ?e,
                calls = [StatusUpdate ''Getting best route...'',
                         StatusUpdate ''Locking in rate...'',
                         StatusUpdate ''Confirm in your wallet...''] \<rparr>"
  let ?st4 = "\<lparr> world = 0 :: nat, environment = ?e,
                calls = [StatusUpdate ''Getting best route...'',
                         StatusUpdate ''Locking in rate...'',
                         StatusUpdate ''Confirm in your wallet...'',
                         StatusUpdate ''Waiting for confirmation...''] \<rparr>"
  have a: "\<And>st. address (?svc st) = Some ''0xowner''" "''0xowner'' \<noteq> []"
          "\<And>st. signer (?svc st) = Some (Signer ''0xowner'')"
    by (simp_all add: sample_service_def)
  have u1: "update ?cb ''Getting best route...'' sample_purchase = (None, ?st1)"
    by (simp add: update_def sample_purchase_def)
  have u2: "update ?cb ''Locking in rate...'' ?st1 = (None, ?st2)"
    by (simp add: update_def)
  have u3: "update ?cb ''Confirm in your wallet...'' ?st2 = (None, ?st3)"
    by (simp add: update_def)
  have u4: "update ?cb ''Waiting for confirmation...'' ?st3 = (None, ?st4)"
    by (simp add: update_def)
  have p: "\<And>item :: nat ShopItem. sample_parseEther (priceEth item) = Inr 230000000000000"
    by (simp add: sample_parseEther_def)
  have q: "\<And>st. quoteIntent (trails (?svc st))
                   (purchase_request (?svc st) ''0xowner'' 137 230000000000000)
             = Inr sample_quote"
    by (simp add: sample_service_def sample_quoteIntent)
  have c: "\<And>st. commitIntent (trails (?svc st)) (intent sample_quote) = Inr ?committed"
    by (simp add: sample_service_def sample_commitIntent)
  have x: "\<And>st. executeIntent (trails (?svc st))
             \<lparr> intentId_x = intentId_c ?committed, depositSignature = None \<rparr>
             = Inr \<lparr> txHash = ''0xabc'' \<rparr>"
    by (simp add: sample_service_def sample_executeIntent)
  have w: "\<And>st. st = completed \<or> st = failed \<Longrightarrow>
             waitIntentReceipt (trails (?svc st)) (intentId_c ?committed) None (environment ?st4)
             = Some (Inr (sample_receipt ''intent-1'' st), \<lparr> clock = 1150, polled_at = [1000] \<rparr>)"
    using sample_wait_first [of _ "''intent-1''"]
    by (auto simp: sample_service_def)
  have wc: "waitIntentReceipt (trails (?svc completed)) (intentId_c ?committed) None
              (environment ?st4)
            = Some (Inr (sample_receipt ''intent-1'' completed),
                    \<lparr> clock = 1150, polled_at = [1000] \<rparr>)"
    by (rule w) simp
  have wf: "waitIntentReceipt (trails (?svc failed)) (intentId_c ?committed) None
              (environment ?st4)
            = Some (Inr (sample_receipt ''intent-1'' failed),
                    \<lparr> clock = 1150, polled_at = [1000] \<rparr>)"
    by (rule w) simp
  note paid = purchaseItem_effect_once
      [where item = sample_item and svc = "?svc completed" and parseEther = sample_parseEther
         and st = sample_purchase and onStatusUpdate = ?cb and fromChainId = 137,
       OF a(1) a(2) a(3) u1 p q u2 c u3 x u4 wc,
       THEN conjunct2, THEN conjunct2, THEN conjunct1, THEN mp, OF status_sample_receipt,
       THEN conjunct1, THEN mp]
  note lost = purchaseItem_effect_once
      [where item = sample_item and svc = "?svc failed" and parseEther = sample_parseEther
         and st = sample_purchase and onStatusUpdate = ?cb and fromChainId = 137,
       OF a(1) a(2) a(3) u1 p q u2 c u3 x u4 wf,
       THEN conjunct2, THEN conjunct2, THEN conjunct2, THEN mp,
       OF disjI1, OF status_sample_receipt]
  note boom = purchaseItem_effect_once
      [where item = throwing_item and svc = "?svc completed" and parseEther = sample_parseEther
         and st = sample_purchase and onStatusUpdate = ?cb and fromChainId = 137,
       OF a(1) a(2) a(3) u1 p q u2 c u3 x u4 wc,
       THEN conjunct2, THEN conjunct2, THEN conjunct1, THEN mp, OF status_sample_receipt,
       THEN conjunct2, THEN conjunct1, THEN spec, THEN mp]
  have 1: "purchaseItem sample_parseEther (?svc completed) sample_item 137 ?cb sample_purchase
             = Some (Inr (sample_receipt ''intent-1'' completed),
                     \<lparr> world = 1, environment = \<lparr> clock = 1150, polled_at = [1000] \<rparr>,
                       calls = calls ?st4 @ [EffectApplied] \<rparr>)"
    using paid by (simp add: sample_item_def)
  have 2: "purchaseItem sample_parseEther (?svc failed) sample_item 137 ?cb sample_purchase
             = Some (Inr (sample_receipt ''intent-1'' failed),
                     \<lparr> world = 0, environment = \<lparr> clock = 1150, polled_at = [1000] \<rparr>,
                       calls = calls ?st4 \<rparr>)"
    using lost by simp
  have 3: "purchaseItem sample_parseEther (?svc completed) throwing_item 137 ?cb sample_purchase
             = Some (Inl (Error ''boom''),
                     \<lparr> world = 1, environment = \<lparr> clock = 1150, polled_at = [1000] \<rparr>,
                       calls = calls ?st4 @ [EffectApplied] \<rparr>)"
    using boom [of "Error ''boom''"]
    by (simp add: throwing_item_def sample_item_def purchase_catch_def)
  show ?thesis
    using 1 2 3 by simp
qed





end
